theory Spec2Isabelle
  imports Main
begin

section \<open>JavaScript strings and arrays\<close>

text \<open>
  A JavaScript string is a sequence of UTF-16 code units. The model uses HOL's
  \<open>string\<close>, whose characters are the code units 0 to 255, so it covers the
  inputs whose code units all lie in that range. On them \<open>trim\<close>, \<open>\s\<close>, \<open>\w\<close>
  and \<open>toLowerCase\<close> are exactly as defined below, and no operation joins or
  splits code units. Reading an array of strings out of range gives \<open>undefined\<close>,
  which is \<open>None\<close>.
\<close>

abbreviation LF :: char where "LF \<equiv> CHR 0x0A"
abbreviation CR :: char where "CR \<equiv> CHR 0x0D"

text \<open>White space and line terminators, as \<open>String.prototype.trim\<close> and \<open>\s\<close> see them.\<close>

definition isWhiteSpace :: "char \<Rightarrow> bool" where
  "isWhiteSpace c \<longleftrightarrow>
     c \<in> set [CHR 0x09, CHR 0x0A, CHR 0x0B, CHR 0x0C, CHR 0x0D, CHR 0x20, CHR 0xA0]"

definition trim :: "string \<Rightarrow> string" where
  "trim s = rev (dropWhile isWhiteSpace (rev (dropWhile isWhiteSpace s)))"

text \<open>\<open>s.split(c)\<close> for a one-character separator: never the empty array.\<close>

fun splitOn :: "char \<Rightarrow> string \<Rightarrow> string list" where
  "splitOn sep [] = [[]]"
| "splitOn sep (c # cs) =
     (if c = sep then [] # splitOn sep cs
      else (case splitOn sep cs of
              [] \<Rightarrow> [[c]]
            | piece # pieces \<Rightarrow> (c # piece) # pieces))"

text \<open>\<open>xs.join(sep)\<close> on an array of strings.\<close>

fun join :: "string \<Rightarrow> string list \<Rightarrow> string" where
  "join sep [] = []"
| "join sep [x] = x"
| "join sep (x # y # ys) = x @ sep @ join sep (y # ys)"

text \<open>\<open>s.split(/\r?\n/)\<close>: a line feed ends a piece, and takes one carriage return
  standing directly before it along.\<close>

fun splitLines :: "string \<Rightarrow> string list" where
  "splitLines [] = [[]]"
| "splitLines (c # cs) =
     (if c = LF then [] # splitLines cs
      else if c = CR \<and> cs \<noteq> [] \<and> hd cs = LF then [] # splitLines (tl cs)
      else (case splitLines cs of
              [] \<Rightarrow> [[c]]
            | piece # pieces \<Rightarrow> (c # piece) # pieces))"

text \<open>\<open>s.replace(/\r\n|\r|\n/g, '\n')\<close>.\<close>

fun normalizeLineEndings :: "string \<Rightarrow> string" where
  "normalizeLineEndings [] = []"
| "normalizeLineEndings (c # cs) =
     (if c = CR \<and> cs \<noteq> [] \<and> hd cs = LF then LF # normalizeLineEndings (tl cs)
      else if c = CR then LF # normalizeLineEndings cs
      else c # normalizeLineEndings cs)"

text \<open>\<open>s.replace(/[P]+/g, r)\<close>: every maximal run of characters of the class \<open>P\<close>
  becomes the string \<open>r\<close>.\<close>

function replaceRuns :: "(char \<Rightarrow> bool) \<Rightarrow> string \<Rightarrow> string \<Rightarrow> string" where
  "replaceRuns P r [] = []"
| "replaceRuns P r (x # xs) =
     (if P x then r @ replaceRuns P r (dropWhile P xs) else x # replaceRuns P r xs)"
  by pat_completeness auto
termination
  by (relation "measure (\<lambda>(P, r, s). length s)")
     (auto simp: less_Suc_eq_le length_dropWhile_le)

text \<open>\<open>s.toLowerCase()\<close>: on the code units 0 to 255 it works character by
  character, on A to Z and on the accented capitals 0xC0 to 0xDE (0xD7, the
  multiplication sign, is no letter).\<close>

definition upperChars :: string where
  "upperChars = ''ABCDEFGHIJKLMNOPQRSTUVWXYZ'' @
     [CHR 0xC0, CHR 0xC1, CHR 0xC2, CHR 0xC3, CHR 0xC4, CHR 0xC5, CHR 0xC6, CHR 0xC7,
      CHR 0xC8, CHR 0xC9, CHR 0xCA, CHR 0xCB, CHR 0xCC, CHR 0xCD, CHR 0xCE, CHR 0xCF,
      CHR 0xD0, CHR 0xD1, CHR 0xD2, CHR 0xD3, CHR 0xD4, CHR 0xD5, CHR 0xD6,
      CHR 0xD8, CHR 0xD9, CHR 0xDA, CHR 0xDB, CHR 0xDC, CHR 0xDD, CHR 0xDE]"

definition lowerChars :: string where
  "lowerChars = ''abcdefghijklmnopqrstuvwxyz'' @
     [CHR 0xE0, CHR 0xE1, CHR 0xE2, CHR 0xE3, CHR 0xE4, CHR 0xE5, CHR 0xE6, CHR 0xE7,
      CHR 0xE8, CHR 0xE9, CHR 0xEA, CHR 0xEB, CHR 0xEC, CHR 0xED, CHR 0xEE, CHR 0xEF,
      CHR 0xF0, CHR 0xF1, CHR 0xF2, CHR 0xF3, CHR 0xF4, CHR 0xF5, CHR 0xF6,
      CHR 0xF8, CHR 0xF9, CHR 0xFA, CHR 0xFB, CHR 0xFC, CHR 0xFD, CHR 0xFE]"

definition lowerChar :: "char \<Rightarrow> char" where
  "lowerChar c = (case map_of (zip upperChars lowerChars) c of Some d \<Rightarrow> d | None \<Rightarrow> c)"

definition toLowerCase :: "string \<Rightarrow> string" where
  "toLowerCase s = map lowerChar s"

text \<open>\<open>s.includes(sub)\<close>.\<close>

fun includes_str :: "string \<Rightarrow> string \<Rightarrow> bool" where
  "includes_str [] sub = (sub = [])"
| "includes_str (c # cs) sub = (take (length sub) (c # cs) = sub \<or> includes_str cs sub)"

text \<open>\<open>xs.findIndex(p)\<close>: \<open>None\<close> is the source's \<open>-1\<close>.\<close>

fun findIndex :: "('a \<Rightarrow> bool) \<Rightarrow> 'a list \<Rightarrow> nat option" where
  "findIndex p [] = None"
| "findIndex p (x # xs) =
     (if p x then Some 0 else map_option Suc (findIndex p xs))"

text \<open>\<open>xs[i]\<close>: \<open>undefined\<close> out of range, and at the index \<open>-1\<close>.\<close>

definition elemAt :: "'a list \<Rightarrow> nat option \<Rightarrow> 'a option" where
  "elemAt xs i = (case i of None \<Rightarrow> None
              | Some n \<Rightarrow> if n < length xs then Some (xs ! n) else None)"

text \<open>\<open>v || ''\<close> on a string or \<open>undefined\<close>.\<close>

definition orEmpty :: "string option \<Rightarrow> string" where
  "orEmpty v = (case v of None \<Rightarrow> [] | Some s \<Rightarrow> s)"

section \<open>SequenceCodec\<close>

text \<open>\<open>DNA_COMPLEMENT[base] || base\<close>.\<close>

definition DNA_COMPLEMENT :: "char \<Rightarrow> char option" where
  "DNA_COMPLEMENT = map_of
     [(CHR ''A'', CHR ''T''), (CHR ''T'', CHR ''A''),
      (CHR ''C'', CHR ''G''), (CHR ''G'', CHR ''C'')]"

definition complementBase :: "char \<Rightarrow> char" where
  "complementBase base = (case DNA_COMPLEMENT base of Some b \<Rightarrow> b | None \<Rightarrow> base)"

definition reverseComplement :: "string \<Rightarrow> string" where
  "reverseComplement sequence = map complementBase (rev sequence)"

text \<open>\<open>/^[ATCG]+$/.test(sequence)\<close>: one character of the class, then as many
  more as there are, then the end of the input.\<close>

fun matchATCGPlus :: "string \<Rightarrow> bool" where
  "matchATCGPlus [] = False"
| "matchATCGPlus (c # cs) =
     (c \<in> set ''ATCG'' \<and> (cs = [] \<or> matchATCGPlus cs))"

definition isDNASequence :: "string \<Rightarrow> bool" where
  "isDNASequence sequence = matchATCGPlus sequence"

section \<open>TextSanitizer\<close>

text \<open>The class \<open>[a-zA-Z0-9\-_]\<close>.\<close>

definition identifierChars :: string where
  "identifierChars =
     ''abcdefghijklmnopqrstuvwxyzABCDEFGHIJKLMNOPQRSTUVWXYZ0123456789-_''"

text \<open>The class \<open>\w\<close>, and \<open>[\W_]\<close>.\<close>

definition wordChars :: string where
  "wordChars =
     ''abcdefghijklmnopqrstuvwxyzABCDEFGHIJKLMNOPQRSTUVWXYZ0123456789_''"

definition nonWordOrUnderscore :: "char \<Rightarrow> bool" where
  "nonWordOrUnderscore c \<longleftrightarrow> c \<notin> set wordChars \<or> c = CHR ''_''"

text \<open>
  \<open>removeSpecialChars(text, replaceChar = '-', collapseRepeat = true)\<close>. The
  replacement is one character that the regular expression built from it reads
  literally, as the default \<open>-\<close> of every call in the repository is.
\<close>

definition removeSpecialChars :: "string \<Rightarrow> char \<Rightarrow> bool \<Rightarrow> string" where
  "removeSpecialChars text replaceChar collapseRepeat =
     (let result = map (\<lambda>c. if c \<in> set identifierChars then c else replaceChar) text
      in if collapseRepeat
         then replaceRuns (\<lambda>c. c = replaceChar) [replaceChar] result
         else result)"

text \<open>\<open>replaceSpecialCharacters(text)\<close>, with its three passes.\<close>

definition replaceSpecialCharacters :: "string \<Rightarrow> string" where
  "replaceSpecialCharacters text =
     (if text = [] then text
      else let result = replaceRuns nonWordOrUnderscore ''-'' text;
               result = replaceRuns (\<lambda>c. c = CHR ''-'') ''-'' result;
               result = replaceRuns (\<lambda>c. c = CHR ''_'') ''_'' result
           in result)"

text \<open>The same function with the third pass (the collapse of \<open>_\<close> runs) left out.\<close>

definition replaceSpecialCharacters_without_underscore_pass :: "string \<Rightarrow> string" where
  "replaceSpecialCharacters_without_underscore_pass text =
     (if text = [] then text
      else let result = replaceRuns nonWordOrUnderscore ''-'' text;
               result = replaceRuns (\<lambda>c. c = CHR ''-'') ''-'' result
           in result)"

section \<open>Arrays with missing elements, objects, errors\<close>

text \<open>
  The cells of a row are strings, but the code reads and writes rows out of
  range: \<open>Undefined\<close> is the value \<open>undefined\<close> stored in an array, \<open>Hole\<close> an index
  below the length that was never written. Reading either gives \<open>undefined\<close> and
  \<open>join\<close> prints either as the empty string; \<open>filter\<close> skips holes and the spread
  \<open>[...row]\<close> turns them into \<open>undefined\<close>.
\<close>

datatype cell = Str string | Undefined | Hole

text \<open>A thrown value: a \<open>TypeError\<close> of the runtime, or \<open>new Error(message)\<close>.\<close>

datatype error = TypeError | Error string

definition cellText :: "cell \<Rightarrow> string" where
  "cellText c = (case c of Str s \<Rightarrow> s | Undefined \<Rightarrow> [] | Hole \<Rightarrow> [])"

definition joinCells :: "cell list \<Rightarrow> string" where
  "joinCells row = join '','' (map cellText row)"

definition spread :: "cell list \<Rightarrow> cell list" where
  "spread row = map (\<lambda>c. if c = Hole then Undefined else c) row"

text \<open>\<open>row[i]\<close> on a row of cells.\<close>

definition cellAt :: "cell list \<Rightarrow> nat option \<Rightarrow> cell" where
  "cellAt row i = (case elemAt row i of None \<Rightarrow> Undefined
                   | Some Hole \<Rightarrow> Undefined
                   | Some c \<Rightarrow> c)"

text \<open>\<open>row[i] = v\<close>: beyond the end the array grows, leaving holes.\<close>

definition setAt :: "nat \<Rightarrow> cell \<Rightarrow> cell list \<Rightarrow> cell list" where
  "setAt i v row = (if i < length row then row[i := v]
                    else row @ replicate (i - length row) Hole @ [v])"

text \<open>\<open>row.filter((_, i) => i !== k)\<close>, counting the index from \<open>i\<close>.\<close>

fun filterNotIndex :: "nat \<Rightarrow> nat \<Rightarrow> cell list \<Rightarrow> cell list" where
  "filterNotIndex k i [] = []"
| "filterNotIndex k i (c # cs) =
     (if c = Hole \<or> i = k then filterNotIndex k (Suc i) cs
      else c # filterNotIndex k (Suc i) cs)"

text \<open>\<open>headers.filter((_, i) => i !== k)\<close> on an array of strings.\<close>

fun filterNotIndexStr :: "nat \<Rightarrow> nat \<Rightarrow> string list \<Rightarrow> string list" where
  "filterNotIndexStr k i [] = []"
| "filterNotIndexStr k i (h # hs) =
     (if i = k then filterNotIndexStr k (Suc i) hs
      else h # filterNotIndexStr k (Suc i) hs)"

text \<open>\<open>obj[k] = v\<close> and \<open>map.set(k, v)\<close>: a key that is there keeps its place,
  a new one goes to the end. The keys of the objects built below all contain
  a \<open>+\<close> or a \<open>-\<close>, so none is an array index (which JavaScript would list
  first) or the name of a property of \<open>Object.prototype\<close>.\<close>

fun objectSet :: "'k \<Rightarrow> 'v \<Rightarrow> ('k \<times> 'v) list \<Rightarrow> ('k \<times> 'v) list" where
  "objectSet k v [] = [(k, v)]"
| "objectSet k v (p # ps) = (if fst p = k then (k, v) # ps else p # objectSet k v ps)"

text \<open>\<open>xs.every((x, i) => p(x, i))\<close>, counting the index from \<open>i\<close>.\<close>

fun everyFrom :: "nat \<Rightarrow> ('a \<Rightarrow> nat \<Rightarrow> bool) \<Rightarrow> 'a list \<Rightarrow> bool" where
  "everyFrom i p [] = True"
| "everyFrom i p (x # xs) = (p x i \<and> everyFrom (Suc i) p xs)"

text \<open>\<open>s.replace(pat, rep)\<close> with a string pattern: the first occurrence only.\<close>

fun replaceFirst :: "string \<Rightarrow> string \<Rightarrow> string \<Rightarrow> string" where
  "replaceFirst pat rep [] = (if pat = [] then rep else [])"
| "replaceFirst pat rep (c # cs) =
     (if take (length pat) (c # cs) = pat then rep @ drop (length pat) (c # cs)
      else c # replaceFirst pat rep cs)"

section \<open>DuplicateIndexDetector: \<open>validateSampleSheet2k\<close>\<close>

record ValidationResult2k =
  duplicatedIndexes2k :: "(string \<times> string list) list"
  isValid :: bool

record scan2k =
  dataSection2k :: bool
  headers2k :: "string list"
  duplicated2k :: "(string \<times> string list) list"
  indexCombinations :: "(string \<times> string list) list"

text \<open>
  One turn of the loop of \<open>validateSampleSheet2k\<close>. The array \<open>samples\<close> is shared
  between \<open>indexCombinations\<close> and \<open>duplicatedIndexes\<close>; every \<open>push\<close> to it is
  followed by the assignment to both, so the two entries are written together.
\<close>

definition scanLine2k :: "string \<Rightarrow> scan2k \<Rightarrow> scan2k" where
  "scanLine2k rawLine st =
     (let line = trim rawLine in
      if line = ''[BCLConvert_Data]'' then st\<lparr>dataSection2k := True\<rparr>
      else if \<not> dataSection2k st \<or> line = [] then st
      else if headers2k st = [] then st\<lparr>headers2k := map trim (splitOn (CHR '','') line)\<rparr>
      else
        let cells = map trim (splitOn (CHR '','') line);
            sampleId = orEmpty (elemAt cells
              (findIndex (\<lambda>h. toLowerCase h = ''sample_id'') (headers2k st)));
            index = orEmpty (elemAt cells
              (findIndex (\<lambda>h. toLowerCase h = ''index'') (headers2k st)));
            index2 = orEmpty (elemAt cells
              (findIndex (\<lambda>h. toLowerCase h = ''index2'') (headers2k st)))
        in if sampleId = [] \<or> index = [] then st
           else
             let indexKey = index @ ''-'' @ index2 in
             (case map_of (indexCombinations st) indexKey of
                Some samples \<Rightarrow>
                  let samples = samples @ [sampleId] in
                  st\<lparr>indexCombinations := objectSet indexKey samples (indexCombinations st),
                     duplicated2k := objectSet indexKey samples (duplicated2k st)\<rparr>
              | None \<Rightarrow>
                  st\<lparr>indexCombinations :=
                       objectSet indexKey [sampleId] (indexCombinations st)\<rparr>))"

fun scanLines2k :: "scan2k \<Rightarrow> string list \<Rightarrow> scan2k" where
  "scanLines2k st [] = st"
| "scanLines2k st (rawLine # rest) = scanLines2k (scanLine2k rawLine st) rest"

definition validateSampleSheet2k :: "string \<Rightarrow> ValidationResult2k" where
  "validateSampleSheet2k content =
     (let st = scanLines2k
                 \<lparr>dataSection2k = False, headers2k = [], duplicated2k = [],
                  indexCombinations = []\<rparr>
                 (splitLines content)
      in \<lparr>duplicatedIndexes2k = duplicated2k st,
          isValid = (duplicated2k st = [])\<rparr>)"

section \<open>DuplicateIndexDetector: \<open>validateSampleSheet\<close> (NextSeq 500)\<close>

record ValidationResult =
  samples :: "string list"
  duplicatedIndexes :: "(string \<times> string) list"

definition nextera_xt_v2 :: "(string \<times> string) list" where
  "nextera_xt_v2 = [(''N701'', ''TAAGGCGA''), (''S522'', ''TTATGCGA'')]"

text \<open>The names every object inherits: \<open>ADAPTER_LIST[name]\<close> finds a value for
  them that has no \<open>get\<close>, and the call of it throws a \<open>TypeError\<close>.\<close>

definition objectPrototypeKeys :: "string list" where
  "objectPrototypeKeys =
     [''constructor'', ''hasOwnProperty'', ''isPrototypeOf'', ''propertyIsEnumerable'',
      ''toLocaleString'', ''toString'', ''valueOf'', ''__proto__'',
      ''__defineGetter__'', ''__defineSetter__'', ''__lookupGetter__'',
      ''__lookupSetter__'']"

definition ADAPTER_LIST :: "string \<Rightarrow> error + (string \<times> string) list" where
  "ADAPTER_LIST adapterKit =
     (if adapterKit = ''nextera_xt_v2'' then Inr nextera_xt_v2
      else if adapterKit \<in> set objectPrototypeKeys then Inl TypeError
      else Inl (Error (''Unknown adapter kit: '' @ adapterKit)))"

definition expectedHeader :: "string list" where
  "expectedHeader = [''Sample_ID'', ''Description'', ''I7_Index_ID'', ''index'',
                     ''I5_Index_ID'', ''index2'', ''Sample_Project'']"

text \<open>\<open>adapters.get(id) || fallback\<close>: the sequences of the kit are not empty.\<close>

definition adapterOr :: "(string \<times> string) list \<Rightarrow> string \<Rightarrow> string \<Rightarrow> string" where
  "adapterOr adapters indexId fallback =
     (case map_of adapters indexId of Some s \<Rightarrow> s | None \<Rightarrow> fallback)"

text \<open>The key of a data row of at least seven cells, and its cleaned sample id.\<close>

definition pairIndex :: "string list \<Rightarrow> string" where
  "pairIndex row = (row ! 3) @ ''+'' @ (row ! 5)"

definition cleanSampleId :: "string list \<Rightarrow> string" where
  "cleanSampleId row = removeSpecialChars (row ! 0) (CHR ''-'') True"

text \<open>The line a data row of at least seven cells contributes, for the adapters of
  the kit.\<close>

definition sampleLine :: "(string \<times> string) list \<Rightarrow> string list \<Rightarrow> string" where
  "sampleLine adapters row =
     (let cleanDescription =
            (if row ! 1 \<noteq> [] then removeSpecialChars (row ! 1) (CHR ''-'') True
             else cleanSampleId row);
          cleanSampleProject = removeSpecialChars (row ! 6) (CHR ''-'') True;
          cleanI7IndexId = replaceFirst ''A-'' [] (row ! 2);
          cleanI5IndexId = replaceFirst ''A-'' [] (row ! 4)
      in join '',''
           [cleanSampleId row, cleanDescription, cleanI7IndexId,
            adapterOr adapters cleanI7IndexId (row ! 3),
            cleanI5IndexId,
            reverseComplement (adapterOr adapters cleanI5IndexId (row ! 5)),
            cleanSampleProject])"

text \<open>
  The body of the loop for a data row. A row of fewer than seven cells has
  \<open>sampleProject\<close> undefined, and \<open>removeSpecialChars(undefined)\<close> throws a
  \<open>TypeError\<close> before anything else is looked at. The result is the line to push,
  if any, and the map of index pairs.
\<close>

definition dataRow ::
  "string \<Rightarrow> string list \<Rightarrow> (string \<times> string) list \<Rightarrow>
   error + (string option \<times> (string \<times> string) list)" where
  "dataRow adapterKit row dups =
     (if length row < 7 then Inl TypeError
      else
        (case map_of dups (pairIndex row) of
           Some seen \<Rightarrow>
             Inr (None, objectSet (pairIndex row) (seen @ '','' @ cleanSampleId row) dups)
         | None \<Rightarrow>
             (case ADAPTER_LIST adapterKit of
                Inl e \<Rightarrow> Inl e
              | Inr adapters \<Rightarrow>
                  Inr (Some (sampleLine adapters row),
                       objectSet (pairIndex row) (cleanSampleId row) dups))))"

text \<open>The loop over the lines. \<open>row[0]\<close> is always there: \<open>split\<close> gives at least
  one piece.\<close>

fun validateLoop ::
  "string \<Rightarrow> bool \<Rightarrow> string list \<Rightarrow> (string \<times> string) list \<Rightarrow> string list \<Rightarrow>
   error + (string list \<times> (string \<times> string) list)" where
  "validateLoop adapterKit foundHeader smpls dups [] = Inr (smpls, dups)"
| "validateLoop adapterKit foundHeader smpls dups (line # rest) =
     (if trim line = [] then validateLoop adapterKit foundHeader smpls dups rest
      else
        let row = map trim (splitOn (CHR '','') line) in
        if \<not> foundHeader then
          (if includes_str (toLowerCase (hd row)) ''sample'' then
             (if \<not> everyFrom 0 (\<lambda>col i. elemAt row (Some i) = Some col) expectedHeader
              then Inl (Error ''Invalid column headers'')
              else validateLoop adapterKit True (smpls @ [line]) dups rest)
           else validateLoop adapterKit False (smpls @ [line]) dups rest)
        else
          (case dataRow adapterKit row dups of
             Inl e \<Rightarrow> Inl e
           | Inr (None, dups') \<Rightarrow> validateLoop adapterKit True smpls dups' rest
           | Inr (Some sample, dups') \<Rightarrow>
               validateLoop adapterKit True (smpls @ [sample]) dups' rest))"

definition validateSampleSheet :: "string \<Rightarrow> string \<Rightarrow> error + ValidationResult" where
  "validateSampleSheet content adapterKit =
     (case validateLoop adapterKit False [] [] (splitOn LF content) of
        Inl e \<Rightarrow> Inl e
      | Inr (smpls, dups) \<Rightarrow>
          Inr \<lparr>samples = smpls,
               duplicatedIndexes = filter (\<lambda>(k, v). includes_str v '','') dups\<rparr>)"

text \<open>
  What the claim on \<open>validateSampleSheet\<close> speaks of: the lines up to the column
  header, the data rows after it, the rows that are the first with their index
  pair, and the cleaned sample ids of the rows with a given pair.
\<close>

abbreviation (input) parseRow :: "string \<Rightarrow> string list" where
  "parseRow line \<equiv> map trim (splitOn (CHR '','') line)"

definition nonBlankLines :: "string \<Rightarrow> string list" where
  "nonBlankLines content = filter (\<lambda>line. trim line \<noteq> []) (splitOn LF content)"

definition isHeaderLine :: "string \<Rightarrow> bool" where
  "isHeaderLine line \<longleftrightarrow>
     includes_str (toLowerCase (hd (map trim (splitOn (CHR '','') line)))) ''sample''"

definition linesToHeader :: "string \<Rightarrow> string list" where
  "linesToHeader content =
     takeWhile (\<lambda>line. \<not> isHeaderLine line) (nonBlankLines content)
     @ take 1 (dropWhile (\<lambda>line. \<not> isHeaderLine line) (nonBlankLines content))"

definition dataRowsOf :: "string \<Rightarrow> string list list" where
  "dataRowsOf content =
     map (\<lambda>line. map trim (splitOn (CHR '','') line))
       (drop 1 (dropWhile (\<lambda>line. \<not> isHeaderLine line) (nonBlankLines content)))"

definition firstOfPair :: "string list list \<Rightarrow> nat \<Rightarrow> bool" where
  "firstOfPair rs i \<longleftrightarrow> pairIndex (rs ! i) \<notin> set (map pairIndex (take i rs))"

definition firstRows :: "string list list \<Rightarrow> string list list" where
  "firstRows rs = map (\<lambda>i. rs ! i) (filter (firstOfPair rs) [0..<length rs])"

definition idsOfPair :: "string \<Rightarrow> string list list \<Rightarrow> string list" where
  "idsOfPair k rs = map cleanSampleId (filter (\<lambda>row. pairIndex row = k) rs)"

text \<open>The same two things told along the rows, for the induction over the loop:
  the rows whose pair is not among the keys seen, and the map after the rows.\<close>

fun unseenRows :: "string list \<Rightarrow> string list list \<Rightarrow> string list list" where
  "unseenRows seen [] = []"
| "unseenRows seen (row # rs) =
     (if pairIndex row \<in> set seen then unseenRows seen rs
      else row # unseenRows (seen @ [pairIndex row]) rs)"

fun recordRows :: "(string \<times> string) list \<Rightarrow> string list list \<Rightarrow> (string \<times> string) list" where
  "recordRows dups [] = dups"
| "recordRows dups (row # rs) =
     recordRows
       (case map_of dups (pairIndex row) of
          Some seen \<Rightarrow> objectSet (pairIndex row) (seen @ '','' @ cleanSampleId row) dups
        | None \<Rightarrow> objectSet (pairIndex row) (cleanSampleId row) dups)
       rs"

section \<open>SheetParser: \<open>parseIlluminaSampleSheet\<close> (NextSeq 500)\<close>

definition NoDataSection :: error where
  "NoDataSection = Error ''Invalid sample sheet format: [Data] section not found''"

definition EmptyDataSection :: error where
  "EmptyDataSection = Error ''Invalid sample sheet format: No data found after [Data] section''"

text \<open>\<open>lines[i].trim().replace(/,+$/, '')\<close>.\<close>

definition cleanLine :: "string \<Rightarrow> string" where
  "cleanLine rawLine = rev (dropWhile (\<lambda>c. c = CHR '','') (rev (trim rawLine)))"

record parse500 =
  dataSection :: bool
  headerLines :: "string list"
  dataLines :: "string list"

definition parseLine500 :: "parse500 \<Rightarrow> string \<Rightarrow> parse500" where
  "parseLine500 st rawLine =
     (if cleanLine rawLine = ''[Data]'' then st\<lparr>dataSection := True, dataLines := []\<rparr>
      else if \<not> dataSection st then st\<lparr>headerLines := headerLines st @ [rawLine]\<rparr>
      else if length (cleanLine rawLine) > 0
           then st\<lparr>dataLines := dataLines st @ [cleanLine rawLine]\<rparr>
      else st)"

definition parseLines500 :: "string list \<Rightarrow> parse500" where
  "parseLines500 lines =
     foldl parseLine500 \<lparr>dataSection = False, headerLines = [], dataLines = []\<rparr> lines"

definition parseIlluminaSampleSheet :: "string \<Rightarrow> error + (string list \<times> string list)" where
  "parseIlluminaSampleSheet content =
     (let st = parseLines500 (splitOn LF (normalizeLineEndings content))
      in if \<not> dataSection st then Inl NoDataSection
         else if length (dataLines st) < 2 then Inl EmptyDataSection
         else Inr (headerLines st, dataLines st))"

text \<open>
  What the claims on the parser speak of: the cleaned lines of the input,
  whether one of them is the marker, and the lines after the last marker that
  are not empty once cleaned.
\<close>

definition cleanedLines :: "string \<Rightarrow> string list" where
  "cleanedLines content = map cleanLine (splitOn LF (normalizeLineEndings content))"

definition markerFound :: "string \<Rightarrow> bool" where
  "markerFound content \<longleftrightarrow> ''[Data]'' \<in> set (cleanedLines content)"

definition afterLastMarker :: "string list \<Rightarrow> string list" where
  "afterLastMarker ls = rev (takeWhile (\<lambda>l. l \<noteq> ''[Data]'') (rev ls))"

definition dataLinesAfterMarker :: "string \<Rightarrow> string list" where
  "dataLinesAfterMarker content =
     filter (\<lambda>l. l \<noteq> []) (afterLastMarker (cleanedLines content))"

section \<open>SheetParser and ColumnReconciler: \<open>processContent\<close> (NextSeq 2000)\<close>

text \<open>The settings of the page; the numbers are taken in their decimal text, as
  the template literals print them.\<close>

record config2k =
  runName :: string
  read1Cycle :: string
  read2Cycle :: string
  index1Cycle :: string
  index2Cycle :: string
  bclVersion :: string
  barcodeMismatchesIndex1 :: string
  barcodeMismatchesIndex2 :: string
  adapterRead1 :: string
  adapterRead2 :: string
  noLaneSplitting :: bool

definition generatedHeaderSection :: "config2k \<Rightarrow> string list" where
  "generatedHeaderSection cfg =
     [''[Header],,,'',
      ''FileFormatVersion,2,,'',
      ''RunName,'' @ runName cfg @ '',,'',
      ''InstrumentPlatform,NextSeq1k2k,,'',
      ''InstrumentType,NextSeq2000,,'',
      '',,,'',
      ''[Reads],,,'',
      ''Read1Cycles,'' @ read1Cycle cfg @ '',,'',
      ''Read2Cycles,'' @ read2Cycle cfg @ '',,'',
      ''Index1Cycles,'' @ index1Cycle cfg @ '',,'',
      ''Index2Cycles,'' @ index2Cycle cfg @ '',,'',
      '',,,'',
      ''[BCLConvert_Settings],,,'',
      ''SoftwareVersion,'' @ bclVersion cfg @ '',,'',
      ''BarcodeMismatchesIndex1,'' @ barcodeMismatchesIndex1 cfg @ '',,'',
      ''BarcodeMismatchesIndex2,'' @ barcodeMismatchesIndex2 cfg @ '',,'',
      ''AdapterRead1,'' @ adapterRead1 cfg @ '',,'',
      ''AdapterRead2,'' @ adapterRead2 cfg @ '',,'',
      ''NoLaneSplitting,'' @ (if noLaneSplitting cfg then ''TRUE'' else ''FALSE'') @ '',,'',
      '',,,'',
      ''[BCLConvert_Data],,,'']"

text \<open>The variables of the page that \<open>processContent\<close> assigns.\<close>

record page2k =
  headers :: "string list"
  originalRows :: "cell list list"
  headerSection :: "string list"
  rows :: "cell list list"
  result :: "ValidationResult2k option"
  error :: "error option"

text \<open>The \<open>catch\<close> of \<open>processContent\<close>: what was assigned before the throw stays.\<close>

definition caught :: "error \<Rightarrow> page2k \<Rightarrow> page2k" where
  "caught e page = page\<lparr>error := Some e, result := None\<rparr>"

text \<open>\<open>replaceSpecialCharacters(row[i])\<close>: \<open>undefined\<close> is returned as it is.\<close>

definition replaceSpecialCharactersCell :: "cell \<Rightarrow> cell" where
  "replaceSpecialCharactersCell c =
     (case c of Str s \<Rightarrow> Str (replaceSpecialCharacters s) | Undefined \<Rightarrow> Undefined
      | Hole \<Rightarrow> Undefined)"

definition getFullContent :: "page2k \<Rightarrow> string" where
  "getFullContent page =
     join [LF] (headerSection page @ [join '','' (headers page)]
                @ map joinCells (rows page))"

subsection \<open>The copy of the page in \<open>src/unnamed/part_000\<close>\<close>

definition expectedHeaders :: "string list" where
  "expectedHeaders = [''Sample_ID'', ''Index2'', ''Index'', ''Sample_Project'']"

text \<open>The map from the position of a column in the input to its position in
  the expected order; a column that is not found gets no entry.\<close>

definition headerMapOf :: "string list \<Rightarrow> string list \<Rightarrow> (nat \<times> nat) list" where
  "headerMapOf expectedNames inputHeaders =
     foldl (\<lambda>headerMap (expectedIndex, expected).
              case findIndex (\<lambda>h. toLowerCase h = toLowerCase expected) inputHeaders of
                None \<Rightarrow> headerMap
              | Some currentIndex \<Rightarrow> objectSet currentIndex expectedIndex headerMap)
       [] (enumerate 0 expectedNames)"

definition reorderCells :: "nat \<Rightarrow> (nat \<times> nat) list \<Rightarrow> string list \<Rightarrow> cell list" where
  "reorderCells n headerMap cells =
     foldl (\<lambda>reorderedCells (oldIndex, newIndex).
              setAt newIndex (Str (orEmpty (elemAt cells (Some oldIndex)))) reorderedCells)
       (replicate n (Str [])) headerMap"

record sections2k =
  inData :: bool
  headerPart :: "string list"
  dataPart :: "string list"

definition sectionLine :: "sections2k \<Rightarrow> string \<Rightarrow> sections2k" where
  "sectionLine st line =
     (if trim line = ''[BCLConvert_Data]''
      then st\<lparr>inData := True, headerPart := headerPart st @ [line]\<rparr>
      else if \<not> inData st then st\<lparr>headerPart := headerPart st @ [line]\<rparr>
      else if trim line \<noteq> [] then st\<lparr>dataPart := dataPart st @ [line]\<rparr>
      else st)"

definition splitSections :: "string list \<Rightarrow> sections2k" where
  "splitSections lines =
     foldl sectionLine \<lparr>inData = False, headerPart = [], dataPart = []\<rparr> lines"

text \<open>The end of \<open>processContent\<close>: the Sample_ID column is cleaned, the sheet is
  validated, the error is cleared.\<close>

definition cleanSampleIdColumn :: "string list \<Rightarrow> cell list \<Rightarrow> cell list" where
  "cleanSampleIdColumn hs row =
     (case findIndex (\<lambda>h. toLowerCase h = ''sample_id'') hs of
        None \<Rightarrow> spread row
      | Some sampleIdIndex \<Rightarrow>
          setAt sampleIdIndex
            (replaceSpecialCharactersCell (cellAt row (Some sampleIdIndex))) (spread row))"

definition finishContent :: "page2k \<Rightarrow> page2k" where
  "finishContent page =
     (let page = page\<lparr>rows := map (cleanSampleIdColumn (headers page)) (originalRows page)\<rparr>
      in page\<lparr>result := Some (validateSampleSheet2k (getFullContent page)),
              error := None\<rparr>)"

text \<open>\<open>content.split(/\r?\n/).filter(line => line.trim())\<close>.\<close>

definition contentLines :: "string \<Rightarrow> string list" where
  "contentLines content = filter (\<lambda>line. trim line \<noteq> []) (splitLines content)"

definition hasFullStructure :: "string list \<Rightarrow> bool" where
  "hasFullStructure lines = list_ex (\<lambda>line. includes_str line ''[Header]'') lines"

text \<open>The branch for a plain CSV file: the columns are put into the expected
  order; a column that is not found is left empty, and nothing is thrown for
  it. \<open>lines[0]\<close> is \<open>undefined\<close> when no line is left, and its \<open>split\<close> throws.\<close>

definition simpleCsv_part000 :: "config2k \<Rightarrow> page2k \<Rightarrow> string list \<Rightarrow> page2k" where
  "simpleCsv_part000 cfg page lines =
     (case lines of
        [] \<Rightarrow> caught TypeError page
      | firstLine # rest \<Rightarrow>
          let inputHeaders = map trim (splitOn (CHR '','') firstLine);
              headerMap = headerMapOf expectedHeaders inputHeaders
          in finishContent
               (page\<lparr>headers := expectedHeaders,
                     originalRows :=
                       map (\<lambda>line. reorderCells (length expectedHeaders) headerMap
                                      (map trim (splitOn (CHR '','') line)))
                         (filter (\<lambda>line. trim line \<noteq> []) rest),
                     headerSection := generatedHeaderSection cfg\<rparr>))"

text \<open>The branch for a file with the full structure. \<open>dataLines[0]\<close> is
  \<open>undefined\<close> when no data line follows the marker, and its \<open>split\<close> throws.\<close>

definition fullStructure_part000 :: "page2k \<Rightarrow> string list \<Rightarrow> page2k" where
  "fullStructure_part000 page lines =
     (let st = splitSections lines;
          page = page\<lparr>headerSection := headerPart st\<rparr>
      in (case dataPart st of
            [] \<Rightarrow> caught TypeError page
          | firstLine # rest \<Rightarrow>
              finishContent
                (page\<lparr>headers := map trim (splitOn (CHR '','') firstLine),
                      originalRows :=
                        map (\<lambda>line. map (\<lambda>cell. Str (trim cell)) (splitOn (CHR '','') line))
                          (filter (\<lambda>line. trim line \<noteq> []) rest)\<rparr>)))"

definition processContent_part000 :: "config2k \<Rightarrow> page2k \<Rightarrow> string \<Rightarrow> page2k" where
  "processContent_part000 cfg page content =
     (let lines = contentLines content in
      if \<not> hasFullStructure lines then simpleCsv_part000 cfg page lines
      else fullStructure_part000 page lines)"

subsection \<open>The page in \<open>src/routes/nextseq2k/+page.svelte\<close>\<close>

definition requiredColumns :: "string list" where
  "requiredColumns = [''sample_id'', ''index2'', ''index'', ''sample_project'']"

definition missingColumnsOf :: "string list \<Rightarrow> string list" where
  "missingColumnsOf inputHeadersLower =
     filter (\<lambda>required. required \<notin> set inputHeadersLower) requiredColumns"

definition MissingColumns :: "string list \<Rightarrow> error" where
  "MissingColumns missingColumns =
     Error (''Missing required columns: '' @ join '', '' missingColumns)"

text \<open>The headers of the required columns, in the spelling of the input; a
  column that is not found gives \<open>undefined\<close>, which does not happen once the
  missing columns have been refused.\<close>

definition headersOfInput :: "string list \<Rightarrow> string list" where
  "headersOfInput inputHeaders =
     map (\<lambda>required.
            orEmpty (elemAt inputHeaders
              (findIndex (\<lambda>h. h = required) (map toLowerCase inputHeaders))))
       requiredColumns"

definition headerMapLower :: "string list \<Rightarrow> (nat \<times> nat) list" where
  "headerMapLower inputHeadersLower =
     foldl (\<lambda>headerMap (index, required).
              case findIndex (\<lambda>h. h = required) inputHeadersLower of
                None \<Rightarrow> headerMap
              | Some inputIndex \<Rightarrow> objectSet inputIndex index headerMap)
       [] (enumerate 0 requiredColumns)"

definition reorderCellsTruthy :: "nat \<Rightarrow> (nat \<times> nat) list \<Rightarrow> string list \<Rightarrow> cell list" where
  "reorderCellsTruthy n headerMap cells =
     foldl (\<lambda>reorderedCells (oldIndex, newIndex).
              if orEmpty (elemAt cells (Some oldIndex)) \<noteq> []
              then setAt newIndex (Str (orEmpty (elemAt cells (Some oldIndex)))) reorderedCells
              else reorderedCells)
       (replicate n (Str [])) headerMap"

definition sectionLineIncludes :: "sections2k \<Rightarrow> string \<Rightarrow> sections2k" where
  "sectionLineIncludes st line =
     (if includes_str line ''[BCLConvert_Data]''
      then st\<lparr>inData := True, headerPart := headerPart st @ [line]\<rparr>
      else if \<not> inData st then st\<lparr>headerPart := headerPart st @ [line]\<rparr>
      else if trim line \<noteq> [] then st\<lparr>dataPart := dataPart st @ [line]\<rparr>
      else st)"

definition splitSectionsIncludes :: "string list \<Rightarrow> sections2k" where
  "splitSectionsIncludes lines =
     foldl sectionLineIncludes \<lparr>inData = False, headerPart = [], dataPart = []\<rparr> lines"

record processed =
  newRows :: "cell list list"
  changedSampleIds :: "string list"
  duplicatedList :: "(string \<times> string list) list"
  combinations :: "(string \<times> string list) list"

text \<open>\<open>xs.indexOf(s)\<close> on an array of strings.\<close>

definition indexOf :: "string list \<Rightarrow> string \<Rightarrow> nat option" where
  "indexOf xs s = findIndex (\<lambda>x. x = s) xs"

text \<open>\<open>row[i] || fallback\<close> on a row of cells.\<close>

definition cellOr :: "cell list \<Rightarrow> nat option \<Rightarrow> string \<Rightarrow> string" where
  "cellOr row i fallback =
     (case cellAt row i of Str s \<Rightarrow> (if s = [] then fallback else s)
      | Undefined \<Rightarrow> fallback | Hole \<Rightarrow> fallback)"

definition processRow :: "string list \<Rightarrow> processed \<Rightarrow> cell list \<Rightarrow> processed" where
  "processRow hs acc row =
     (let sampleIdIndex = indexOf (map toLowerCase hs) ''sample_id'';
          index1Index = indexOf (map toLowerCase hs) ''index'';
          index2Index = indexOf (map toLowerCase hs) ''index2'';
          original = cellAt row sampleIdIndex;
          cleaned = replaceSpecialCharactersCell original;
          acc = (if sampleIdIndex \<noteq> None \<and> original \<noteq> cleaned
                 then acc\<lparr>changedSampleIds := changedSampleIds acc @ [cellText original]\<rparr>
                 else acc);
          newRow = (case sampleIdIndex of None \<Rightarrow> spread row
                    | Some i \<Rightarrow> setAt i cleaned (spread row));
          acc = (if index1Index \<noteq> None \<and> index2Index \<noteq> None then
                   let sampleId = cellOr row sampleIdIndex ''Unknown'';
                       index1 = cellOr row index1Index [];
                       index2 = cellOr row index2Index [];
                       indexKey = index2 @ ''-'' @ index1
                   in (case map_of (combinations acc) indexKey of
                         Some seen \<Rightarrow>
                           let smpls = seen @ [sampleId] in
                           acc\<lparr>combinations := objectSet indexKey smpls (combinations acc),
                               duplicatedList := objectSet indexKey smpls (duplicatedList acc)\<rparr>
                       | None \<Rightarrow>
                           acc\<lparr>combinations :=
                                 objectSet indexKey [sampleId] (combinations acc)\<rparr>)
                 else acc)
      in acc\<lparr>newRows := newRows acc @ [newRow]\<rparr>)"

definition processRows :: "cell list list \<Rightarrow> string list \<Rightarrow> processed" where
  "processRows rs hs =
     foldl (processRow hs)
       \<lparr>newRows = [], changedSampleIds = [], duplicatedList = [], combinations = []\<rparr> rs"

definition duplicateDetails :: "(string \<times> string list) list \<Rightarrow> string" where
  "duplicateDetails dups =
     join ''; '' (map (\<lambda>(indexCombo, smpls).
                        [CHR 0x22] @ indexCombo @ [CHR 0x22] @ '' used by: '' @ join '', '' smpls)
                   dups)"

text \<open>The check both branches make on the header row of the data.\<close>

definition missingColumnsError :: "string list \<Rightarrow> error option" where
  "missingColumnsError inputHeaders =
     (let missingColumns = missingColumnsOf (map toLowerCase inputHeaders)
      in if length missingColumns > 0 then Some (MissingColumns missingColumns) else None)"

text \<open>The branch for a plain CSV file, whose first line is the header row.\<close>

definition simpleCsv_nextseq2k ::
  "config2k \<Rightarrow> page2k \<Rightarrow> string \<Rightarrow> string list \<Rightarrow> page2k" where
  "simpleCsv_nextseq2k cfg page firstLine rest =
     (let inputHeaders = map trim (splitOn (CHR '','') firstLine) in
      case missingColumnsError inputHeaders of
        Some e \<Rightarrow> caught e page
      | None \<Rightarrow>
          let headerMap = headerMapLower (map toLowerCase inputHeaders);
              page = page\<lparr>headers := headersOfInput inputHeaders,
                          originalRows :=
                            map (\<lambda>line. reorderCellsTruthy (length requiredColumns) headerMap
                                           (map trim (splitOn (CHR '','') line)))
                              (filter (\<lambda>line. trim line \<noteq> []) rest)\<rparr>
          in if originalRows page = []
             then caught (Error ''No data rows found in the file'') page
             else page\<lparr>headerSection := generatedHeaderSection cfg\<rparr>)"

text \<open>The branch for a file with the full structure.\<close>

definition fullStructure_nextseq2k :: "page2k \<Rightarrow> string list \<Rightarrow> page2k" where
  "fullStructure_nextseq2k page lines =
     (let st = splitSectionsIncludes lines;
          page = page\<lparr>headerSection := headerPart st\<rparr>
      in if \<not> inData st
         then caught (Error ''No [BCLConvert_Data] section found in the file'') page
         else
           (case dataPart st of
              [] \<Rightarrow> caught (Error ''No data found after [BCLConvert_Data] section'') page
            | dataHeader # dataRest \<Rightarrow>
                let inputHeaders = map trim (splitOn (CHR '','') dataHeader) in
                (case missingColumnsError inputHeaders of
                   Some e \<Rightarrow> caught e page
                 | None \<Rightarrow>
                     let page = page\<lparr>headers := headersOfInput inputHeaders,
                            originalRows :=
                              map (\<lambda>line. map (\<lambda>cell. Str (trim cell))
                                             (splitOn (CHR '','') line))
                                (filter (\<lambda>line. trim line \<noteq> []) dataRest)\<rparr>;
                         processedRows = processRows (originalRows page) (headers page);
                         page = page\<lparr>rows := newRows processedRows\<rparr>
                     in if length (changedSampleIds processedRows) > 0 then
                          caught (Error
                            (''Invalid characters found in Sample_ID. The following sample IDs contain special characters: ''
                             @ join '', '' (changedSampleIds processedRows))) page
                        else if length (duplicatedList processedRows) > 0 then
                          caught (Error (''Duplicate index combinations found: ''
                                         @ duplicateDetails (duplicatedList processedRows)))
                            page
                        else page)))"

definition processContent_nextseq2k :: "config2k \<Rightarrow> page2k \<Rightarrow> string \<Rightarrow> page2k" where
  "processContent_nextseq2k cfg page content =
     (if content = [] then caught (Error ''Empty content received'') page
      else
        let lines = contentLines content in
        (case lines of
           [] \<Rightarrow> caught (Error ''File appears to be empty'') page
         | firstLine # rest \<Rightarrow>
             if \<not> hasFullStructure lines then simpleCsv_nextseq2k cfg page firstLine rest
             else fullStructure_nextseq2k page lines))"

section \<open>SheetSerializer: \<open>downloadValidated\<close>\<close>

text \<open>The columns and rows to write: with \<open>removeProject\<close>, the first column whose
  header contains \<open>project\<close> is taken out of the headers and of every row.\<close>

definition projectColIndex :: "string list \<Rightarrow> nat option" where
  "projectColIndex hs = findIndex (\<lambda>header. includes_str (toLowerCase header) ''project'') hs"

definition downloadHeaders :: "bool \<Rightarrow> string list \<Rightarrow> string list" where
  "downloadHeaders removeProject hs =
     (if removeProject then
        (case projectColIndex hs of None \<Rightarrow> hs
         | Some k \<Rightarrow> filterNotIndexStr k 0 hs)
      else hs)"

definition downloadRows :: "bool \<Rightarrow> string list \<Rightarrow> cell list list \<Rightarrow> cell list list" where
  "downloadRows removeProject hs rs =
     (if removeProject then
        (case projectColIndex hs of None \<Rightarrow> map spread rs
         | Some k \<Rightarrow> map (filterNotIndex k 0) rs)
      else map spread rs)"

text \<open>The loop \<open>while (paddedRow.length < downloadHeaders.length) paddedRow.push('')\<close>.\<close>

function padRow :: "nat \<Rightarrow> cell list \<Rightarrow> cell list" where
  "padRow n paddedRow =
     (if length paddedRow < n then padRow n (paddedRow @ [Str []]) else paddedRow)"
  by pat_completeness auto
termination
  by (relation "measure (\<lambda>(n, paddedRow). n - length paddedRow)") auto

declare padRow.simps [simp del]

definition paddedRows :: "bool \<Rightarrow> string list \<Rightarrow> cell list list \<Rightarrow> cell list list" where
  "paddedRows removeProject hs rs =
     map (\<lambda>row. padRow (length (downloadHeaders removeProject hs)) (spread row))
       (downloadRows removeProject hs rs)"

text \<open>The text the NextSeq 2000 page offers for download; \<open>None\<close> is the early
  return, with nothing downloaded.\<close>

definition downloadValidated_part000 :: "page2k \<Rightarrow> bool \<Rightarrow> string option" where
  "downloadValidated_part000 page removeProject =
     (if headers page = [] \<or> rows page = [] then None
      else Some (join [LF]
             (headerSection page
              @ [join '','' (downloadHeaders removeProject (headers page))]
              @ map joinCells (paddedRows removeProject (headers page) (rows page)))))"

text \<open>The NextSeq 500 page keeps the content of the file and parses it again for
  the header section, which lacks the marker line; the page writes \<open>[Data]\<close>
  itself. \<open>Inr None\<close> is the early return, \<open>Inl\<close> the error that is caught and
  shown.\<close>

definition downloadValidated_nextseq500 ::
  "string list \<Rightarrow> cell list list \<Rightarrow> string \<Rightarrow> bool \<Rightarrow> error + string option" where
  "downloadValidated_nextseq500 hs rs fileContent removeProject =
     (if hs = [] \<or> rs = [] \<or> fileContent = [] then Inr None
      else
        (case parseIlluminaSampleSheet fileContent of
           Inl e \<Rightarrow> Inl e
         | Inr (headerSection500, dataLines500) \<Rightarrow>
             Inr (Some (join [LF]
                    (headerSection500
                     @ [''[Data]'', join '','' (downloadHeaders removeProject hs)]
                     @ map joinCells (paddedRows removeProject hs rs))))))"

text \<open>The page as it is loaded: the settings with their initial values, and
  nothing parsed yet.\<close>

definition defaultConfig :: config2k where
  "defaultConfig =
     \<lparr>runName = ''nextseq2000'', read1Cycle = ''151'', read2Cycle = ''151'',
      index1Cycle = ''10'', index2Cycle = ''10'', bclVersion = ''4.2.7'',
      barcodeMismatchesIndex1 = ''0'', barcodeMismatchesIndex2 = ''0'',
      adapterRead1 = ''AGATCGGAAGAGCACACGTCTGAACTCCAGTCA'',
      adapterRead2 = ''AGATCGGAAGAGCGTCGTGTAGGGAAAGAGTGT'',
      noLaneSplitting = True\<rparr>"

definition emptyPage :: page2k where
  "emptyPage = \<lparr>headers = [], originalRows = [], headerSection = [], rows = [],
                 result = None, error = None\<rparr>"

section \<open>Properties of the string helpers\<close>

lemma replaceRuns_none: "\<forall>c\<in>set s. \<not> P c \<Longrightarrow> replaceRuns P r s = s"
  by (induction s) auto

lemma replaceRuns_set:
  "set (replaceRuns P r s) \<subseteq> set r \<union> {c \<in> set s. \<not> P c}"
proof (induction P r s rule: replaceRuns.induct)
  case (1 P r)
  show ?case by simp
next
  case (2 P r x xs)
  show ?case
  proof (cases "P x")
    case True
    have "set (dropWhile P xs) \<subseteq> set xs" by (simp add: set_dropWhileD subsetI)
    with True 2(1) show ?thesis by auto
  next
    case False
    with 2(2) show ?thesis by auto
  qed
qed

lemma replaceRuns_head:
  "s = [] \<or> \<not> P (hd s) \<Longrightarrow>
   replaceRuns P r s = [] \<or> \<not> P (hd (replaceRuns P r s))"
  by (cases s) auto

lemma dropWhile_head: "dropWhile P xs = [] \<or> \<not> P (hd (dropWhile P xs))"
  by (metis hd_dropWhile)

lemma dropWhile_id: "s = [] \<or> \<not> P (hd s) \<Longrightarrow> dropWhile P s = s"
  by (cases s) auto

lemma replaceRuns_idem:
  "P c \<Longrightarrow> replaceRuns P [c] (replaceRuns P [c] s) = replaceRuns P [c] s"
proof (induction P "[c]" s rule: replaceRuns.induct)
  case (1 P)
  show ?case by simp
next
  case (2 P x xs)
  show ?case
  proof (cases "P x")
    case True
    let ?t = "replaceRuns P [c] (dropWhile P xs)"
    have "?t = [] \<or> \<not> P (hd ?t)"
      by (rule replaceRuns_head) (rule dropWhile_head)
    then have "dropWhile P ?t = ?t" by (rule dropWhile_id)
    with True 2 show ?thesis by simp
  next
    case False
    with 2 show ?thesis by simp
  qed
qed

section \<open>Claims on SequenceCodec and TextSanitizer\<close>

lemma complementBase_involution: "complementBase (complementBase c) = c"
  by (simp add: complementBase_def DNA_COMPLEMENT_def)

text \<open>
  C4. \<open>reverseComplement\<close> is its own inverse: for every string, over A, C, G, T
  and any other characters (which pass through unchanged), applying it twice
  gives the string back.
\<close>

theorem reverseComplement_involution:
  "reverseComplement (reverseComplement s) = s"
  by (simp add: reverseComplement_def rev_map complementBase_involution o_def)

lemma identifier_map_id:
  "set s \<subseteq> set identifierChars \<Longrightarrow>
   map (\<lambda>c. if c \<in> set identifierChars then c else r) s = s"
  by (induction s) auto

lemma removeSpecialChars_chars:
  "set (removeSpecialChars x (CHR ''-'') True) \<subseteq> set identifierChars"
proof -
  let ?m = "map (\<lambda>c. if c \<in> set identifierChars then c else CHR ''-'') x"
  have hyphen: "CHR ''-'' \<in> set identifierChars"
    by (simp add: identifierChars_def)
  then have "set ?m \<subseteq> set identifierChars" by auto
  moreover have "set (replaceRuns (\<lambda>c. c = CHR ''-'') ''-'' ?m) \<subseteq> set ''-'' \<union> set ?m"
    using replaceRuns_set [of "\<lambda>c. c = CHR ''-''" "''-''" ?m] by blast
  ultimately show ?thesis
    using hyphen by (auto simp: removeSpecialChars_def)
qed

text \<open>
  C5. The sanitizer \<open>removeSpecialChars\<close> with its defaults (replacement \<open>-\<close>,
  collapse of repeats on) is idempotent: applying it twice gives the same
  string as applying it once.
\<close>

theorem removeSpecialChars_idempotent:
  "removeSpecialChars (removeSpecialChars x (CHR ''-'') True) (CHR ''-'') True
   = removeSpecialChars x (CHR ''-'') True"
proof -
  let ?u = "removeSpecialChars x (CHR ''-'') True"
  have "map (\<lambda>c. if c \<in> set identifierChars then c else CHR ''-'') ?u = ?u"
    by (rule identifier_map_id) (rule removeSpecialChars_chars)
  then have "removeSpecialChars ?u (CHR ''-'') True
             = replaceRuns (\<lambda>c. c = CHR ''-'') ''-'' ?u"
    by (simp add: removeSpecialChars_def [of ?u])
  also have "\<dots> = ?u"
    unfolding removeSpecialChars_def [of x] Let_def if_True
    by (rule replaceRuns_idem) simp
  finally show ?thesis .
qed

lemma first_pass_no_underscore:
  "CHR ''_'' \<notin> set (replaceRuns nonWordOrUnderscore ''-'' text)"
proof
  assume "CHR ''_'' \<in> set (replaceRuns nonWordOrUnderscore ''-'' text)"
  with replaceRuns_set [of nonWordOrUnderscore "''-''" "text"]
  have "CHR ''_'' \<in> set ''-'' \<union> {c \<in> set text. \<not> nonWordOrUnderscore c}" by blast
  then show False by (auto simp: nonWordOrUnderscore_def)
qed

lemma underscore_pass_noop:
  "replaceRuns (\<lambda>c. c = CHR ''_'') ''_''
     (replaceRuns (\<lambda>c. c = CHR ''-'') ''-'' (replaceRuns nonWordOrUnderscore ''-'' text))
   = replaceRuns (\<lambda>c. c = CHR ''-'') ''-'' (replaceRuns nonWordOrUnderscore ''-'' text)"
proof (rule replaceRuns_none, rule ballI)
  fix c
  let ?r1 = "replaceRuns nonWordOrUnderscore ''-'' text"
  assume "c \<in> set (replaceRuns (\<lambda>c. c = CHR ''-'') ''-'' ?r1)"
  with replaceRuns_set [of "\<lambda>c. c = CHR ''-''" "''-''" ?r1]
  have "c \<in> set ''-'' \<union> set ?r1" by blast
  with first_pass_no_underscore [of "text"] show "c \<noteq> CHR ''_''" by auto
qed

text \<open>
  C7, as the claim states it, fails: no input exists on which leaving out the
  collapse of \<open>_\<close> runs changes the result of \<open>replaceSpecialCharacters\<close>.
\<close>

theorem underscore_pass_changes_output_counterexample:
  "\<not> (\<exists>text. replaceSpecialCharacters_without_underscore_pass text
               \<noteq> replaceSpecialCharacters text)"
  by (simp add: replaceSpecialCharacters_def
      replaceSpecialCharacters_without_underscore_pass_def underscore_pass_noop)

text \<open>
  C7, amended. In \<open>replaceSpecialCharacters\<close> the collapse of \<open>_\<close> runs is a pass
  of its own, after the collapse of \<open>-\<close> runs, but it never changes the output:
  the first pass has already turned every underscore into a hyphen, so on every
  input the function without that pass returns the same string.
\<close>

theorem underscore_pass_redundant:
  "replaceSpecialCharacters_without_underscore_pass text = replaceSpecialCharacters text
   \<and> CHR ''_'' \<notin> set (replaceSpecialCharacters text)"
proof -
  have "CHR ''_'' \<notin> set (replaceRuns (\<lambda>c. c = CHR ''-'') ''-''
          (replaceRuns nonWordOrUnderscore ''-'' text))"
    using replaceRuns_set [of "\<lambda>c. c = CHR ''-''" "''-''"
        "replaceRuns nonWordOrUnderscore ''-'' text"]
      first_pass_no_underscore [of "text"] by auto
  then show ?thesis
    by (auto simp: replaceSpecialCharacters_def
        replaceSpecialCharacters_without_underscore_pass_def underscore_pass_noop)
qed

theorem underscore_pass_redundant_witness:
  "replaceSpecialCharacters ''s_1__x !y'' = ''s-1-x-y''
   \<and> replaceSpecialCharacters_without_underscore_pass ''s_1__x !y'' = ''s-1-x-y''"
proof -
  have "replaceSpecialCharacters ''s_1__x !y'' = ''s-1-x-y''" by code_simp
  with underscore_pass_redundant [of "''s_1__x !y''"] show ?thesis by simp
qed

lemma matchATCGPlus_iff:
  "matchATCGPlus s \<longleftrightarrow> s \<noteq> [] \<and> set s \<subseteq> {CHR ''A'', CHR ''C'', CHR ''G'', CHR ''T''}"
proof (induction s)
  case Nil
  show ?case by simp
next
  case (Cons c cs)
  then show ?case by (cases cs) auto
qed

text \<open>
  C9, as the claim states it, fails: every character of the empty string lies
  in \<open>{A, C, G, T}\<close>, and \<open>isDNASequence\<close> returns false on it.
\<close>

theorem isDNASequence_empty_counterexample:
  "set ([] :: string) \<subseteq> {CHR ''A'', CHR ''C'', CHR ''G'', CHR ''T''} \<and> \<not> isDNASequence []"
  by (simp add: isDNASequence_def)

text \<open>
  C9, amended. \<open>isDNASequence\<close> returns true if and only if the input is not
  empty and every character of it is in \<open>{A, C, G, T}\<close>.
\<close>

theorem isDNASequence_iff:
  "isDNASequence s \<longleftrightarrow>
     s \<noteq> [] \<and> (\<forall>c \<in> set s. c \<in> {CHR ''A'', CHR ''C'', CHR ''G'', CHR ''T''})"
  unfolding isDNASequence_def matchATCGPlus_iff by blast

theorem isDNASequence_iff_witness:
  "isDNASequence ''GATTACA'' \<and> \<not> isDNASequence ''GATXACA''"
  using isDNASequence_iff [of "''GATTACA''"] isDNASequence_iff [of "''GATXACA''"]
  by simp

section \<open>Claims on the duplicate-index detector of the NextSeq 2000\<close>

text \<open>
  C1, as the claim states it, fails: for the three rows with the index pairs
  (AAAA, TTTT), (AAAA, TTTT) and (GGGG, CCCC), the map that
  \<open>validateSampleSheet2k\<close> returns has no key \<open>TTTT-AAAA\<close>.
\<close>

theorem validateSampleSheet2k_key_order_counterexample:
  "map_of (duplicatedIndexes2k (validateSampleSheet2k
     (join [LF] [''[BCLConvert_Data]'', ''Sample_ID,Index2,Index,Sample_Project'',
        ''sample1,TTTT,AAAA,ProjA'', ''sample2,TTTT,AAAA,ProjA'',
        ''sample3,CCCC,GGGG,ProjA''])))
     ''TTTT-AAAA'' = None"
  by code_simp

text \<open>
  C1, amended. For those rows the map has exactly one key, \<open>AAAA-TTTT\<close> (the
  index value, then \<open>-\<close>, then the index2 value), with the list
  \<open>[sample1, sample2]\<close>; the key of sample3 is not in the map, and the sheet is
  not valid.
\<close>

theorem validateSampleSheet2k_duplicates:
  "validateSampleSheet2k
     (join [LF] [''[BCLConvert_Data]'', ''Sample_ID,Index2,Index,Sample_Project'',
        ''sample1,TTTT,AAAA,ProjA'', ''sample2,TTTT,AAAA,ProjA'',
        ''sample3,CCCC,GGGG,ProjA''])
   = \<lparr>duplicatedIndexes2k = [(''AAAA-TTTT'', [''sample1'', ''sample2''])],
      isValid = False\<rparr>"
  by code_simp

theorem validateSampleSheet2k_duplicates_witness:
  "\<not> isValid (validateSampleSheet2k
     (join [LF] [''[BCLConvert_Data]'', ''Sample_ID,Index2,Index,Sample_Project'',
        ''sample1,TTTT,AAAA,ProjA'', ''sample2,TTTT,AAAA,ProjA'',
        ''sample3,CCCC,GGGG,ProjA'']))
   \<and> map fst (duplicatedIndexes2k (validateSampleSheet2k
     (join [LF] [''[BCLConvert_Data]'', ''Sample_ID,Index2,Index,Sample_Project'',
        ''sample1,TTTT,AAAA,ProjA'', ''sample2,TTTT,AAAA,ProjA'',
        ''sample3,CCCC,GGGG,ProjA''])))
     = [''AAAA-TTTT'']"
  unfolding validateSampleSheet2k_duplicates by simp

section \<open>Claims on the column reconciler\<close>

lemma sample_name_lines:
  "contentLines (''Sample_Name,Foo,Bar'' @ [LF] @ ''s1,x,y'')
   = [''Sample_Name,Foo,Bar'', ''s1,x,y'']"
  by code_simp

lemma sample_name_not_full:
  "\<not> hasFullStructure [''Sample_Name,Foo,Bar'', ''s1,x,y'']"
  by code_simp

lemma sample_name_headerMap:
  "headerMapOf expectedHeaders (map trim (splitOn (CHR '','') ''Sample_Name,Foo,Bar'')) = []"
  by code_simp

lemma sample_name_missing:
  "missingColumnsError (map trim (splitOn (CHR '','') ''Sample_Name,Foo,Bar''))
   = Some (MissingColumns [''sample_id'', ''index2'', ''index'', ''sample_project''])"
  by code_simp

lemma sample_name_data_line: "filter (\<lambda>line. trim line \<noteq> []) [''s1,x,y''] = [''s1,x,y'']"
  by code_simp

lemma reorderCells_no_column:
  "reorderCells (length expectedHeaders) [] cells = [Str [], Str [], Str [], Str []]"
  by (simp add: reorderCells_def expectedHeaders_def numeral_eq_Suc)

lemma clean_empty_row:
  "cleanSampleIdColumn expectedHeaders [Str [], Str [], Str [], Str []]
   = [Str [], Str [], Str [], Str []]"
  by code_simp

lemma finishContent_fields:
  "error (finishContent p) = None"
  "headers (finishContent p) = headers p"
  "rows (finishContent p) = map (cleanSampleIdColumn (headers p)) (originalRows p)"
  by (simp_all add: finishContent_def Let_def)

lemma part000_sample_name:
  "processContent_part000 cfg page (''Sample_Name,Foo,Bar'' @ [LF] @ ''s1,x,y'')
   = finishContent
       (page\<lparr>headers := expectedHeaders,
             originalRows := [[Str [], Str [], Str [], Str []]],
             headerSection := generatedHeaderSection cfg\<rparr>)"
  unfolding processContent_part000_def sample_name_lines Let_def simpleCsv_part000_def
    list.case sample_name_headerMap sample_name_data_line list.map reorderCells_no_column
  using sample_name_not_full by simp

text \<open>
  C2 on the copy of the page in \<open>src/unnamed/part_000\<close>: for the header row
  \<open>Sample_Name,Foo,Bar\<close> its \<open>processContent\<close> raises nothing. It ends with no
  error, the expected headers and a row of four empty cells.
\<close>

theorem part000_missing_columns_not_reported:
  "error (processContent_part000 cfg page (''Sample_Name,Foo,Bar'' @ [LF] @ ''s1,x,y'')) = None
   \<and> headers (processContent_part000 cfg page (''Sample_Name,Foo,Bar'' @ [LF] @ ''s1,x,y''))
       = [''Sample_ID'', ''Index2'', ''Index'', ''Sample_Project'']
   \<and> rows (processContent_part000 cfg page (''Sample_Name,Foo,Bar'' @ [LF] @ ''s1,x,y''))
       = [[Str [], Str [], Str [], Str []]]"
  unfolding part000_sample_name finishContent_fields
  by (simp add: clean_empty_row) (simp add: expectedHeaders_def)

text \<open>The same holds for every plain CSV file that has a line at all: no header
  row makes this copy of \<open>processContent\<close> end with an error.\<close>

lemma part000_simple_csv_no_error:
  assumes "\<not> hasFullStructure (contentLines content)" and "contentLines content \<noteq> []"
  shows "error (processContent_part000 cfg page content) = None"
proof -
  from assms(2) obtain l ls where "contentLines content = l # ls"
    by (cases "contentLines content") auto
  with assms(1) show ?thesis
    by (simp add: processContent_part000_def simpleCsv_part000_def Let_def
        finishContent_fields)
qed

text \<open>The page in \<open>src/routes/nextseq2k/+page.svelte\<close> raises the error on the same
  input, with the four names in one message.\<close>

lemma missing_columns_message:
  "MissingColumns [''sample_id'', ''index2'', ''index'', ''sample_project'']
   = Error ''Missing required columns: sample_id, index2, index, sample_project''"
  by code_simp

lemma nextseq2k_missing_columns_reported:
  "error (processContent_nextseq2k cfg page (''Sample_Name,Foo,Bar'' @ [LF] @ ''s1,x,y''))
   = Some (Error ''Missing required columns: sample_id, index2, index, sample_project'')"
proof -
  have "''Sample_Name,Foo,Bar'' @ [LF] @ ''s1,x,y'' \<noteq> []" by simp
  then have "processContent_nextseq2k cfg page (''Sample_Name,Foo,Bar'' @ [LF] @ ''s1,x,y'')
    = caught (MissingColumns [''sample_id'', ''index2'', ''index'', ''sample_project'']) page"
    unfolding processContent_nextseq2k_def sample_name_lines Let_def simpleCsv_nextseq2k_def
      list.case sample_name_missing option.case
    using sample_name_not_full by simp
  then show ?thesis
    by (simp add: caught_def missing_columns_message)
qed

section \<open>Claims on the parsers\<close>

lemma afterLastMarker_snoc:
  "afterLastMarker (ls @ [l]) = (if l = ''[Data]'' then [] else afterLastMarker ls @ [l])"
  by (simp add: afterLastMarker_def)

lemma parseLines500_snoc:
  "parseLines500 (ls @ [l]) = parseLine500 (parseLines500 ls) l"
  by (simp add: parseLines500_def)

lemma parseLines500_state:
  "dataSection (parseLines500 ls) = (''[Data]'' \<in> set (map cleanLine ls))
   \<and> dataLines (parseLines500 ls) =
       (if ''[Data]'' \<in> set (map cleanLine ls)
        then filter (\<lambda>l. l \<noteq> []) (afterLastMarker (map cleanLine ls)) else [])
   \<and> headerLines (parseLines500 ls) = takeWhile (\<lambda>l. cleanLine l \<noteq> ''[Data]'') ls"
proof (induction ls rule: rev_induct)
  case Nil
  show ?case by (simp add: parseLines500_def afterLastMarker_def)
next
  case (snoc l ls)
  show ?case
  proof (cases "cleanLine l = ''[Data]''")
    case True
    with snoc show ?thesis
      by (auto simp: parseLines500_snoc parseLine500_def afterLastMarker_snoc takeWhile_append
          image_iff)
  next
    case False
    with snoc show ?thesis
      by (auto simp: parseLines500_snoc parseLine500_def afterLastMarker_snoc takeWhile_append
          image_iff)
  qed
qed

lemma errors_differ: "NoDataSection \<noteq> EmptyDataSection"
  by (simp add: NoDataSection_def EmptyDataSection_def)

text \<open>
  C3, as the claim states it, fails: in \<open>[Data]\<close> followed by the one line
  \<open>Sample_ID,index\<close> the marker is found and a non-empty line follows it, and
  the parser still fails with the empty-data-section error.
\<close>

theorem empty_data_section_counterexample:
  "markerFound (''[Data]'' @ [LF] @ ''Sample_ID,index'')
   \<and> dataLinesAfterMarker (''[Data]'' @ [LF] @ ''Sample_ID,index'') = [''Sample_ID,index'']
   \<and> parseIlluminaSampleSheet (''[Data]'' @ [LF] @ ''Sample_ID,index'') = Inl EmptyDataSection"
  by code_simp

text \<open>
  C3, amended. \<open>parseIlluminaSampleSheet\<close> fails with the empty-data-section
  error if and only if a marker line is found and fewer than two lines follow
  the last marker line that are non-empty once trimmed and stripped of their
  trailing commas (the first such line is the column header, so no data row
  follows); with the marker found and two or more such lines, it does not raise
  this error.
\<close>

theorem empty_data_section_iff:
  "parseIlluminaSampleSheet content = Inl EmptyDataSection \<longleftrightarrow>
     markerFound content \<and> length (dataLinesAfterMarker content) < 2"
  using parseLines500_state [of "splitOn LF (normalizeLineEndings content)"] errors_differ
  by (auto simp: parseIlluminaSampleSheet_def Let_def markerFound_def cleanedLines_def
      dataLinesAfterMarker_def)

theorem empty_data_section_iff_witness:
  "parseIlluminaSampleSheet (''[Data],,'' @ [LF] @ '',,,'' @ [LF] @ ''Sample_ID'')
     = Inl EmptyDataSection
   \<and> parseIlluminaSampleSheet (join [LF] [''[Data]'', ''Sample_ID'', ''S1''])
     \<noteq> Inl EmptyDataSection"
proof -
  have "markerFound (''[Data],,'' @ [LF] @ '',,,'' @ [LF] @ ''Sample_ID'')
        \<and> length (dataLinesAfterMarker (''[Data],,'' @ [LF] @ '',,,'' @ [LF] @ ''Sample_ID'')) < 2"
    by code_simp
  moreover have "\<not> length (dataLinesAfterMarker (join [LF] [''[Data]'', ''Sample_ID'', ''S1'']))
                   < 2"
    by code_simp
  ultimately show ?thesis
    using empty_data_section_iff [of "''[Data],,'' @ [LF] @ '',,,'' @ [LF] @ ''Sample_ID''"]
      empty_data_section_iff [of "join [LF] [''[Data]'', ''Sample_ID'', ''S1'']"]
    by blast
qed

lemma splitSections_snoc:
  "splitSections (ls @ [l]) = sectionLine (splitSections ls) l"
  by (simp add: splitSections_def)

lemma splitSections_marker:
  "inData (splitSections ls) = (\<exists>l \<in> set ls. trim l = ''[BCLConvert_Data]'')
   \<and> (inData (splitSections ls) \<longrightarrow>
        headerPart (splitSections ls) \<noteq> []
        \<and> trim (last (headerPart (splitSections ls))) = ''[BCLConvert_Data]'')"
proof (induction ls rule: rev_induct)
  case Nil
  show ?case by (simp add: splitSections_def)
next
  case (snoc l ls)
  then show ?case
    by (auto simp: splitSections_snoc sectionLine_def)
qed

lemma splitSectionsIncludes_snoc:
  "splitSectionsIncludes (ls @ [l]) = sectionLineIncludes (splitSectionsIncludes ls) l"
  by (simp add: splitSectionsIncludes_def)

lemma splitSectionsIncludes_marker:
  "inData (splitSectionsIncludes ls) = (\<exists>l \<in> set ls. includes_str l ''[BCLConvert_Data]'')
   \<and> (inData (splitSectionsIncludes ls) \<longrightarrow>
        headerPart (splitSectionsIncludes ls) \<noteq> []
        \<and> includes_str (last (headerPart (splitSectionsIncludes ls))) ''[BCLConvert_Data]'')"
proof (induction ls rule: rev_induct)
  case Nil
  show ?case by (simp add: splitSectionsIncludes_def)
next
  case (snoc l ls)
  then show ?case
    by (auto simp: splitSectionsIncludes_snoc sectionLineIncludes_def)
qed

lemma headerSection_finishContent: "headerSection (finishContent page) = headerSection page"
  by (simp add: finishContent_def Let_def)

lemma headerSection_caught: "headerSection (caught e page) = headerSection page"
  by (simp add: caught_def)

lemma part000_headerSection:
  "hasFullStructure (contentLines content) \<Longrightarrow>
   headerSection (processContent_part000 cfg page content) =
   headerPart (splitSections (contentLines content))"
  by (simp add: processContent_part000_def fullStructure_part000_def Let_def
      headerSection_finishContent headerSection_caught split: list.splits)

lemma fullStructure_nextseq2k_headerSection:
  "headerSection (fullStructure_nextseq2k page ls) = headerPart (splitSectionsIncludes ls)"
  by (simp add: fullStructure_nextseq2k_def Let_def headerSection_caught
      split: list.splits option.splits)

lemma nextseq2k_headerSection:
  assumes "hasFullStructure (contentLines content)"
  shows "headerSection (processContent_nextseq2k cfg page content) =
         headerPart (splitSectionsIncludes (contentLines content))"
proof -
  from assms have ne: "contentLines content \<noteq> []" by (auto simp: hasFullStructure_def)
  then have c: "content \<noteq> []" by (auto simp: trim_def contentLines_def)
  from ne obtain l ls where ls: "contentLines content = l # ls"
    by (cases "contentLines content") auto
  show ?thesis
    unfolding processContent_nextseq2k_def Let_def
    using c assms ls
    by (simp add: fullStructure_nextseq2k_headerSection)
qed

lemma parse_empty_content: "parseIlluminaSampleSheet [] = Inl NoDataSection"
  by code_simp

text \<open>
  C6, as the claim states it, fails in two variants. The parser of the
  NextSeq 500 returns, on a sheet with the marker, a header section that does
  not hold the marker line. The copy of \<open>processContent\<close> in
  \<open>src/unnamed/part_000\<close> does not find the marker written with trailing commas,
  \<open>[BCLConvert_Data],,,\<close>: every line goes to the header section, whose last
  line is then a data row, and the call ends in a \<open>TypeError\<close>.
\<close>

theorem marker_line_kept_counterexample:
  "parseIlluminaSampleSheet (join [LF] [''[Header]'', ''[Data]'', ''Sample_ID'', ''S1''])
   = Inr ([''[Header]''], [''Sample_ID'', ''S1''])
   \<and> headerSection (processContent_part000 defaultConfig emptyPage
        (join [LF] [''[Header],,,'', ''[BCLConvert_Data],,,'', ''Sample_ID,Index2,Index'',
                    ''s1,TT,AA'']))
     = [''[Header],,,'', ''[BCLConvert_Data],,,'', ''Sample_ID,Index2,Index'', ''s1,TT,AA'']
   \<and> error (processContent_part000 defaultConfig emptyPage
        (join [LF] [''[Header],,,'', ''[BCLConvert_Data],,,'', ''Sample_ID,Index2,Index'',
                    ''s1,TT,AA'']))
     = Some TypeError"
  by code_simp

text \<open>
  C6, amended. In full-structure mode \<open>processContent\<close> of the NextSeq 2000 keeps
  the marker line as the last line of the header section for every input in
  which it finds the marker: in the copy of \<open>src/unnamed/part_000\<close>, every input
  with a line that is \<open>[BCLConvert_Data]\<close> once trimmed; in
  \<open>src/routes/nextseq2k/+page.svelte\<close>, every input with a line that contains
  \<open>[BCLConvert_Data]\<close>. The parser of the NextSeq 500,
  \<open>parseIlluminaSampleSheet\<close>, does not keep the marker line: whenever it
  returns, its header section is the lines before the first line that is
  \<open>[Data]\<close> once trimmed and stripped of trailing commas, none of them a marker
  line, and \<open>downloadValidated\<close> of that page writes the line \<open>[Data]\<close> itself
  between that header section and the header row.
\<close>

theorem marker_line_in_header_section:
  "(hasFullStructure (contentLines content)
      \<and> (\<exists>l \<in> set (contentLines content). trim l = ''[BCLConvert_Data]'')
    \<longrightarrow> headerSection (processContent_part000 cfg page content) \<noteq> []
        \<and> trim (last (headerSection (processContent_part000 cfg page content)))
            = ''[BCLConvert_Data]'')
   \<and> (hasFullStructure (contentLines content)
      \<and> (\<exists>l \<in> set (contentLines content). includes_str l ''[BCLConvert_Data]'')
    \<longrightarrow> headerSection (processContent_nextseq2k cfg page content) \<noteq> []
        \<and> includes_str (last (headerSection (processContent_nextseq2k cfg page content)))
            ''[BCLConvert_Data]'')
   \<and> (parseIlluminaSampleSheet content = Inr (hdr, dat)
    \<longrightarrow> hdr = takeWhile (\<lambda>l. cleanLine l \<noteq> ''[Data]'')
                 (splitOn LF (normalizeLineEndings content))
        \<and> (\<forall>l \<in> set hdr. cleanLine l \<noteq> ''[Data]'')
        \<and> (hs \<noteq> [] \<and> rs \<noteq> []
           \<longrightarrow> downloadValidated_nextseq500 hs rs content removeProject
               = Inr (Some (join [LF]
                   (hdr @ [''[Data]'', join '','' (downloadHeaders removeProject hs)]
                    @ map joinCells (paddedRows removeProject hs rs))))))"
proof (intro conjI impI)
  assume a: "hasFullStructure (contentLines content)
             \<and> (\<exists>l \<in> set (contentLines content). trim l = ''[BCLConvert_Data]'')"
  then have "inData (splitSections (contentLines content))"
    using splitSections_marker [of "contentLines content"] by blast
  with a splitSections_marker [of "contentLines content"]
  show "headerSection (processContent_part000 cfg page content) \<noteq> []"
    and "trim (last (headerSection (processContent_part000 cfg page content)))
         = ''[BCLConvert_Data]''"
    by (simp_all add: part000_headerSection)
next
  assume a: "hasFullStructure (contentLines content)
             \<and> (\<exists>l \<in> set (contentLines content). includes_str l ''[BCLConvert_Data]'')"
  then have "inData (splitSectionsIncludes (contentLines content))"
    using splitSectionsIncludes_marker [of "contentLines content"] by blast
  with a splitSectionsIncludes_marker [of "contentLines content"]
  show "headerSection (processContent_nextseq2k cfg page content) \<noteq> []"
    and "includes_str (last (headerSection (processContent_nextseq2k cfg page content)))
           ''[BCLConvert_Data]''"
    by (simp_all add: nextseq2k_headerSection)
next
  assume p: "parseIlluminaSampleSheet content = Inr (hdr, dat)"
  then have "hdr = headerLines (parseLines500 (splitOn LF (normalizeLineEndings content)))"
    by (auto simp: parseIlluminaSampleSheet_def Let_def split: if_splits)
  then show h: "hdr = takeWhile (\<lambda>l. cleanLine l \<noteq> ''[Data]'')
                    (splitOn LF (normalizeLineEndings content))"
    using parseLines500_state [of "splitOn LF (normalizeLineEndings content)"] by simp
  show "\<forall>l \<in> set hdr. cleanLine l \<noteq> ''[Data]''"
    unfolding h by (auto dest: set_takeWhileD)
  assume "hs \<noteq> [] \<and> rs \<noteq> []"
  moreover from p have "content \<noteq> []"
    using parse_empty_content by auto
  ultimately show "downloadValidated_nextseq500 hs rs content removeProject
               = Inr (Some (join [LF]
                   (hdr @ [''[Data]'', join '','' (downloadHeaders removeProject hs)]
                    @ map joinCells (paddedRows removeProject hs rs))))"
    using p by (simp add: downloadValidated_nextseq500_def)
qed

theorem marker_line_in_header_section_witness:
  "trim (last (headerSection (processContent_part000 defaultConfig emptyPage
      (join [LF] [''[Header],,,'', '' [BCLConvert_Data] '', ''Sample_ID,Index2,Index'',
                  ''s1,TT,AA''])))) = ''[BCLConvert_Data]''
   \<and> includes_str (last (headerSection (processContent_nextseq2k defaultConfig emptyPage
      (join [LF] [''[Header],,,'', ''[BCLConvert_Data],,,'', ''Sample_ID,Index2,Index'',
                  ''s1,TT,AA'']))))
       ''[BCLConvert_Data]''
   \<and> [''[Header]'']
       = takeWhile (\<lambda>l. cleanLine l \<noteq> ''[Data]'')
           (splitOn LF (normalizeLineEndings
              (join [LF] [''[Header]'', ''[Data]'', ''Sample_ID'', ''S1''])))
   \<and> downloadValidated_nextseq500 [''Sample_ID''] [[Str ''S1'']]
         (join [LF] [''[Header]'', ''[Data]'', ''Sample_ID'', ''S1'']) False
       = Inr (Some (join [LF] [''[Header]'', ''[Data]'', ''Sample_ID'', ''S1'']))"
proof -
  let ?a = "join [LF] [''[Header],,,'', '' [BCLConvert_Data] '', ''Sample_ID,Index2,Index'',
                       ''s1,TT,AA'']"
  let ?b = "join [LF] [''[Header],,,'', ''[BCLConvert_Data],,,'', ''Sample_ID,Index2,Index'',
                       ''s1,TT,AA'']"
  let ?c = "join [LF] [''[Header]'', ''[Data]'', ''Sample_ID'', ''S1'']"
  have a: "hasFullStructure (contentLines ?a)
           \<and> (\<exists>l \<in> set (contentLines ?a). trim l = ''[BCLConvert_Data]'')"
    by code_simp
  have b: "hasFullStructure (contentLines ?b)
           \<and> (\<exists>l \<in> set (contentLines ?b). includes_str l ''[BCLConvert_Data]'')"
    by code_simp
  have c: "parseIlluminaSampleSheet ?c = Inr ([''[Header]''], [''Sample_ID'', ''S1''])"
    by code_simp
  have d: "[''Sample_ID''] \<noteq> [] \<and> [[Str ''S1'']] \<noteq> []"
    by simp
  have csv: "join [LF] ([''[Header]''] @ [''[Data]'', join '','' (downloadHeaders False [''Sample_ID''])]
               @ map joinCells (paddedRows False [''Sample_ID''] [[Str ''S1'']]))
             = join [LF] [''[Header]'', ''[Data]'', ''Sample_ID'', ''S1'']"
    by code_simp
  note parsed = marker_line_in_header_section
      [where content = ?c and hdr = "[''[Header]'']" and dat = "[''Sample_ID'', ''S1'']"
         and hs = "[''Sample_ID'']" and rs = "[[Str ''S1'']]" and removeProject = False,
       THEN conjunct2, THEN conjunct2, THEN mp, OF c]
  have "trim (last (headerSection (processContent_part000 defaultConfig emptyPage ?a)))
        = ''[BCLConvert_Data]''"
    by (rule marker_line_in_header_section
          [of ?a defaultConfig emptyPage, THEN conjunct1, THEN mp, OF a, THEN conjunct2])
  moreover
  have "includes_str (last (headerSection (processContent_nextseq2k defaultConfig emptyPage ?b)))
          ''[BCLConvert_Data]''"
    by (rule marker_line_in_header_section
          [of ?b defaultConfig emptyPage, THEN conjunct2, THEN conjunct1, THEN mp, OF b,
           THEN conjunct2])
  moreover
  have "[''[Header]'']
        = takeWhile (\<lambda>l. cleanLine l \<noteq> ''[Data]'') (splitOn LF (normalizeLineEndings ?c))"
    by (rule parsed [THEN conjunct1])
  moreover
  have "downloadValidated_nextseq500 [''Sample_ID''] [[Str ''S1'']] ?c False
        = Inr (Some (join [LF] [''[Header]'', ''[Data]'', ''Sample_ID'', ''S1'']))"
    using parsed [THEN conjunct2, THEN conjunct2, THEN mp, OF d]
    unfolding csv .
  ultimately show ?thesis
    by (intro conjI)
qed

section \<open>Claims on the serializer\<close>

lemma padRow_eq: "padRow n r = r @ replicate (n - length r) (Str [])"
proof (induction n r rule: padRow.induct)
  case (1 n paddedRow)
  show ?case
  proof (cases "length paddedRow < n")
    case True
    then have "n - length paddedRow = Suc (n - Suc (length paddedRow))" by simp
    with True 1 show ?thesis
      by (subst padRow.simps) (simp add: replicate_app_Cons_same)
  next
    case False
    then show ?thesis by (subst padRow.simps) simp
  qed
qed

lemma spread_spread: "spread (spread r) = spread r"
  by (induction r) (auto simp: spread_def)

lemma filterNotIndex_no_hole: "Hole \<notin> set (filterNotIndex k i r)"
  by (induction r arbitrary: i) auto

lemma spread_no_hole: "Hole \<notin> set r \<Longrightarrow> spread r = r"
  by (induction r) (auto simp: spread_def)

lemma downloadRows_length: "length (downloadRows removeProject hs rs) = length rs"
  by (simp add: downloadRows_def split: option.splits)

lemma downloadRows_spread:
  "i < length rs \<Longrightarrow>
   spread (downloadRows removeProject hs rs ! i) = downloadRows removeProject hs rs ! i"
  by (simp add: downloadRows_def spread_spread spread_no_hole filterNotIndex_no_hole
      split: option.splits)

lemma paddedRows_nth:
  assumes "i < length rs"
  shows "paddedRows removeProject hs rs ! i
         = downloadRows removeProject hs rs ! i
           @ replicate (length (downloadHeaders removeProject hs)
                        - length (downloadRows removeProject hs rs ! i)) (Str [])"
proof -
  from assms have "i < length (downloadRows removeProject hs rs)"
    by (simp add: downloadRows_length)
  then have "paddedRows removeProject hs rs ! i
    = padRow (length (downloadHeaders removeProject hs))
        (spread (downloadRows removeProject hs rs ! i))"
    by (simp add: paddedRows_def)
  with assms show ?thesis
    by (simp add: padRow_eq downloadRows_spread)
qed

lemma downloadRows_keep:
  "i < length rs \<Longrightarrow>
   length (downloadRows False hs rs ! i) = length (rs ! i)"
  by (simp add: downloadRows_def spread_def)

text \<open>
  C8. Each row is written with as many cells as the larger of its own length
  and the number of headers, both taken after the project column has been
  removed when that was asked for: the cells of the row come first, unchanged
  and all of them, and empty strings fill it up to the number of headers.
  Without the removal the row has the length it has on the page. The two pages
  write these rows, joined by commas, after the header section and the header
  line.
\<close>

theorem rows_padded_never_truncated:
  "length (paddedRows removeProject hs rs) = length rs
   \<and> (\<forall>i < length rs.
        length (paddedRows removeProject hs rs ! i)
          = max (length (downloadRows removeProject hs rs ! i))
                (length (downloadHeaders removeProject hs))
        \<and> take (length (downloadRows removeProject hs rs ! i))
               (paddedRows removeProject hs rs ! i)
          = downloadRows removeProject hs rs ! i
        \<and> drop (length (downloadRows removeProject hs rs ! i))
               (paddedRows removeProject hs rs ! i)
          = replicate (length (downloadHeaders removeProject hs)
                       - length (downloadRows removeProject hs rs ! i)) (Str [])
        \<and> (\<not> removeProject \<longrightarrow>
             length (downloadRows removeProject hs rs ! i) = length (rs ! i)))
   \<and> (headers page \<noteq> [] \<and> rows page \<noteq> [] \<longrightarrow>
        downloadValidated_part000 page removeProject
        = Some (join [LF]
            (headerSection page
             @ [join '','' (downloadHeaders removeProject (headers page))]
             @ map joinCells (paddedRows removeProject (headers page) (rows page)))))
   \<and> (hs \<noteq> [] \<and> rs \<noteq> [] \<and> fileContent \<noteq> []
      \<and> parseIlluminaSampleSheet fileContent = Inr (hdr, dat) \<longrightarrow>
        downloadValidated_nextseq500 hs rs fileContent removeProject
        = Inr (Some (join [LF]
            (hdr @ [''[Data]'', join '','' (downloadHeaders removeProject hs)]
             @ map joinCells (paddedRows removeProject hs rs)))))"
proof (intro conjI allI impI)
  show "length (paddedRows removeProject hs rs) = length rs"
    by (simp add: paddedRows_def downloadRows_length)
next
  fix i assume i: "i < length rs"
  let ?d = "downloadRows removeProject hs rs ! i"
  let ?n = "length (downloadHeaders removeProject hs)"
  have p: "paddedRows removeProject hs rs ! i = ?d @ replicate (?n - length ?d) (Str [])"
    using i by (rule paddedRows_nth)
  show "length (paddedRows removeProject hs rs ! i) = max (length ?d) ?n"
    unfolding p by simp
  show "take (length ?d) (paddedRows removeProject hs rs ! i) = ?d"
    unfolding p by simp
  show "drop (length ?d) (paddedRows removeProject hs rs ! i)
        = replicate (?n - length ?d) (Str [])"
    unfolding p by simp
  assume "\<not> removeProject"
  then have "removeProject = False" by simp
  with i show "length ?d = length (rs ! i)"
    by (simp add: downloadRows_keep)
next
  assume "headers page \<noteq> [] \<and> rows page \<noteq> []"
  then show "downloadValidated_part000 page removeProject
        = Some (join [LF]
            (headerSection page
             @ [join '','' (downloadHeaders removeProject (headers page))]
             @ map joinCells (paddedRows removeProject (headers page) (rows page))))"
    by (simp add: downloadValidated_part000_def)
next
  assume "hs \<noteq> [] \<and> rs \<noteq> [] \<and> fileContent \<noteq> []
      \<and> parseIlluminaSampleSheet fileContent = Inr (hdr, dat)"
  then show "downloadValidated_nextseq500 hs rs fileContent removeProject
        = Inr (Some (join [LF]
            (hdr @ [''[Data]'', join '','' (downloadHeaders removeProject hs)]
             @ map joinCells (paddedRows removeProject hs rs))))"
    by (simp add: downloadValidated_nextseq500_def)
qed

theorem rows_padded_never_truncated_witness:
  "length (paddedRows True [''Sample_ID'', ''Index2'', ''Index'', ''Sample_Project'']
             [[Str ''S1'', Str ''TTTT''],
              [Str ''S2'', Str ''CCCC'', Str ''GGGG'', Str ''ProjA'', Str ''extra'']] ! 0) = 3
   \<and> length (paddedRows True [''Sample_ID'', ''Index2'', ''Index'', ''Sample_Project'']
             [[Str ''S1'', Str ''TTTT''],
              [Str ''S2'', Str ''CCCC'', Str ''GGGG'', Str ''ProjA'', Str ''extra'']] ! 1) = 4
   \<and> length (paddedRows False [''Sample_ID'', ''Index2'', ''Index'', ''Sample_Project'']
             [[Str ''S1'', Str ''TTTT''],
              [Str ''S2'', Str ''CCCC'', Str ''GGGG'', Str ''ProjA'', Str ''extra'']] ! 1) = 5
   \<and> downloadValidated_part000
         (emptyPage\<lparr>headers := [''Sample_ID'', ''Index2'', ''Index'', ''Sample_Project''],
                    rows := [[Str ''S1'', Str ''TTTT'']],
                    headerSection := [''[BCLConvert_Data]'']\<rparr>) True
       = Some (join [LF] [''[BCLConvert_Data]'', ''Sample_ID,Index2,Index'', ''S1,TTTT,''])
   \<and> downloadValidated_nextseq500 [''Sample_ID'', ''Index2'', ''Index'', ''Sample_Project'']
         [[Str ''S1'', Str ''TTTT'']]
         (join [LF] [''[Header]'', ''[Data]'', ''Sample_ID'', ''S1'']) False
       = Inr (Some (join [LF] [''[Header]'', ''[Data]'', ''Sample_ID,Index2,Index,Sample_Project'',
                               ''S1,TTTT,,'']))"
proof -
  let ?H = "[''Sample_ID'', ''Index2'', ''Index'', ''Sample_Project'']"
  let ?R = "[[Str ''S1'', Str ''TTTT''],
             [Str ''S2'', Str ''CCCC'', Str ''GGGG'', Str ''ProjA'', Str ''extra'']]"
  let ?R1 = "[[Str ''S1'', Str ''TTTT'']]"
  let ?P = "emptyPage\<lparr>headers := ?H, rows := ?R1, headerSection := [''[BCLConvert_Data]'']\<rparr>"
  let ?F = "join [LF] [''[Header]'', ''[Data]'', ''Sample_ID'', ''S1'']"
  have len: "(0::nat) < length ?R" "(1::nat) < length ?R" by simp_all
  have hT: "length (downloadHeaders True ?H) = 3" by code_simp
  have d0: "length (downloadRows True ?H ?R ! 0) = 2" by code_simp
  have d1: "length (downloadRows True ?H ?R ! 1) = 4" by code_simp
  have hF: "length (downloadHeaders False ?H) = 4" by code_simp
  have r1: "length (?R ! 1) = 5" by simp
  have page: "headers ?P \<noteq> [] \<and> rows ?P \<noteq> []" by (simp add: emptyPage_def)
  have content: "?H \<noteq> [] \<and> ?R1 \<noteq> [] \<and> ?F \<noteq> []
     \<and> parseIlluminaSampleSheet ?F = Inr ([''[Header]''], [''Sample_ID'', ''S1''])"
    by code_simp
  have csv1: "join [LF] (headerSection ?P @ [join '','' (downloadHeaders True (headers ?P))]
                @ map joinCells (paddedRows True (headers ?P) (rows ?P)))
              = join [LF] [''[BCLConvert_Data]'', ''Sample_ID,Index2,Index'', ''S1,TTTT,'']"
    by code_simp
  have csv2: "join [LF] ([''[Header]''] @ [''[Data]'', join '','' (downloadHeaders False ?H)]
                @ map joinCells (paddedRows False ?H ?R1))
              = join [LF] [''[Header]'', ''[Data]'', ''Sample_ID,Index2,Index,Sample_Project'',
                           ''S1,TTTT,,'']"
    by code_simp
  note rowsT = rows_padded_never_truncated [of True ?H ?R, THEN conjunct2, THEN conjunct1]
  note rowsF = rows_padded_never_truncated [of False ?H ?R, THEN conjunct2, THEN conjunct1]
  have "length (paddedRows True ?H ?R ! 0) = 3"
    using rowsT [THEN spec, THEN mp, OF len(1), THEN conjunct1] unfolding hT d0 by simp
  moreover have "length (paddedRows True ?H ?R ! 1) = 4"
    using rowsT [THEN spec, THEN mp, OF len(2), THEN conjunct1] unfolding hT d1 by simp
  moreover have "length (downloadRows False ?H ?R ! 1) = length (?R ! 1)"
    using rowsF [THEN spec, THEN mp, OF len(2), THEN conjunct2, THEN conjunct2, THEN conjunct2]
    by simp
  then have "length (paddedRows False ?H ?R ! 1) = 5"
    using rowsF [THEN spec, THEN mp, OF len(2), THEN conjunct1] unfolding hF by simp
  moreover have "downloadValidated_part000 ?P True
        = Some (join [LF] [''[BCLConvert_Data]'', ''Sample_ID,Index2,Index'', ''S1,TTTT,''])"
    using rows_padded_never_truncated [of True _ _ ?P, THEN conjunct2, THEN conjunct2,
        THEN conjunct1, THEN mp, OF page]
    unfolding csv1 .
  moreover have "downloadValidated_nextseq500 ?H ?R1 ?F False
        = Inr (Some (join [LF] [''[Header]'', ''[Data]'',
                                ''Sample_ID,Index2,Index,Sample_Project'', ''S1,TTTT,,'']))"
    using rows_padded_never_truncated
      [of False ?H ?R1 _ ?F "[''[Header]'']" "[''Sample_ID'', ''S1'']", THEN conjunct2,
        THEN conjunct2, THEN conjunct2, THEN mp, OF content]
    unfolding csv2 .
  ultimately show ?thesis by (intro conjI)
qed

section \<open>Claims on the validator of the NextSeq 500\<close>

lemma splitOn_not_Nil: "splitOn sep s \<noteq> []"
  by (induction s) (auto split: list.splits)

lemma validateLoop_blank:
  "validateLoop kit f s d (filter (\<lambda>l. trim l \<noteq> []) ls) = validateLoop kit f s d ls"
  by (induction ls arbitrary: f s d)
     (simp_all add: Let_def split: sum.splits prod.splits option.splits)

lemma validateLoop_acc:
  "validateLoop kit f (pre @ s) d ls =
   (case validateLoop kit f s d ls of Inl e \<Rightarrow> Inl e | Inr (S, D) \<Rightarrow> Inr (pre @ S, D))"
  by (induction ls arbitrary: f s d)
     (simp_all add: Let_def split: sum.splits prod.splits option.splits)

lemma validateLoop_acc_Inr:
  "validateLoop kit f s d ls = Inr (S, D) \<Longrightarrow>
   \<exists>S'. S = s @ S' \<and> validateLoop kit f [] d ls = Inr (S', D)"
  using validateLoop_acc [of kit f s "[]" d ls]
  by (auto split: sum.splits)

lemma header_phase:
  "validateLoop kit False s d ls = Inr (S, D) \<Longrightarrow>
   \<exists>S'. S = s @ takeWhile (\<lambda>l. \<not> isHeaderLine l) (filter (\<lambda>l. trim l \<noteq> []) ls)
              @ take 1 (dropWhile (\<lambda>l. \<not> isHeaderLine l) (filter (\<lambda>l. trim l \<noteq> []) ls))
              @ S'
        \<and> validateLoop kit True [] d
             (drop 1 (dropWhile (\<lambda>l. \<not> isHeaderLine l) (filter (\<lambda>l. trim l \<noteq> []) ls)))
           = Inr (S', D)"
proof (induction ls arbitrary: s)
  case Nil
  then show ?case by simp
next
  case (Cons line rest)
  show ?case
  proof (cases "trim line = []")
    case True
    with Cons show ?thesis by simp
  next
    case nonblank: False
    show ?thesis
    proof (cases "isHeaderLine line")
      case True
      with nonblank Cons.prems
      have "validateLoop kit True (s @ [line]) d rest = Inr (S, D)"
        by (simp add: isHeaderLine_def Let_def split: if_splits)
      then obtain S' where "S = (s @ [line]) @ S'"
        and "validateLoop kit True [] d rest = Inr (S', D)"
        using validateLoop_acc_Inr by blast
      with True nonblank show ?thesis
        by (simp add: validateLoop_blank)
    next
      case False
      with nonblank Cons.prems
      have "validateLoop kit False (s @ [line]) d rest = Inr (S, D)"
        by (simp add: isHeaderLine_def Let_def split: if_splits)
      from Cons.IH [OF this] False nonblank show ?thesis
        by simp
    qed
  qed
qed

lemma ADAPTER_LIST_Inr: "ADAPTER_LIST kit = Inr a \<Longrightarrow> a = nextera_xt_v2"
  by (auto simp: ADAPTER_LIST_def split: if_splits)

lemma objectSet_keys_seen:
  "map_of d k = Some v \<Longrightarrow> map fst (objectSet k v' d) = map fst d"
  by (induction d) (auto split: if_splits)

lemma objectSet_keys_new:
  "map_of d k = None \<Longrightarrow> map fst (objectSet k v' d) = map fst d @ [k]"
  by (induction d) (auto split: if_splits)

lemma map_of_keys: "k \<in> fst ` set d \<longleftrightarrow> map_of d k \<noteq> None"
  by (induction d) auto

lemma data_phase:
  "validateLoop kit True s d ls = Inr (S, D) \<Longrightarrow>
   S = s @ map (sampleLine nextera_xt_v2)
             (unseenRows (map fst d) (map parseRow (filter (\<lambda>l. trim l \<noteq> []) ls)))
   \<and> D = recordRows d (map parseRow (filter (\<lambda>l. trim l \<noteq> []) ls))
   \<and> (\<forall>row \<in> set (map parseRow (filter (\<lambda>l. trim l \<noteq> []) ls)). 7 \<le> length row)"
proof (induction ls arbitrary: s d)
  case Nil
  then show ?case by simp
next
  case (Cons line rest)
  show ?case
  proof (cases "trim line = []")
    case True
    with Cons show ?thesis by simp
  next
    case nonblank: False
    let ?row = "parseRow line"
    show ?thesis
    proof (cases "map_of d (pairIndex ?row)")
      case None
      with nonblank Cons.prems obtain a where a: "ADAPTER_LIST kit = Inr a"
        and loop: "validateLoop kit True (s @ [sampleLine a ?row])
                     (objectSet (pairIndex ?row) (cleanSampleId ?row) d) rest = Inr (S, D)"
        and len: "7 \<le> length ?row"
        by (auto simp: Let_def dataRow_def split: if_splits sum.splits)
      from a have a': "a = nextera_xt_v2" by (rule ADAPTER_LIST_Inr)
      from None have notin: "pairIndex ?row \<notin> fst ` set d"
        by (simp add: map_of_keys)
      from Cons.IH [OF loop] None notin nonblank a' len show ?thesis
        by (simp add: objectSet_keys_new)
    next
      case (Some v)
      with nonblank Cons.prems
      have loop: "validateLoop kit True s
                     (objectSet (pairIndex ?row) (v @ '','' @ cleanSampleId ?row) d) rest
                  = Inr (S, D)"
        and len: "7 \<le> length ?row"
        by (auto simp: Let_def dataRow_def split: if_splits sum.splits)
      from Some have isin: "pairIndex ?row \<in> fst ` set d"
        by (simp add: map_of_keys)
      from Cons.IH [OF loop] Some isin nonblank len show ?thesis
        by (simp add: objectSet_keys_seen)
    qed
  qed
qed

lemma unseenRows_index:
  "unseenRows seen rs =
   map (\<lambda>i. rs ! i)
     (filter (\<lambda>i. pairIndex (rs ! i) \<notin> set seen \<union> set (map pairIndex (take i rs)))
        [0..<length rs])"
proof (induction rs arbitrary: seen)
  case Nil
  show ?case by simp
next
  case (Cons r rs)
  have upt: "[0..<length (r # rs)] = 0 # map Suc [0..<length rs]"
    by (simp add: upt_conv_Cons map_Suc_upt del: upt_Suc)
  show ?case
    unfolding upt
    by (auto simp: Cons.IH filter_map o_def
        intro!: arg_cong [where f = "map ((!) rs)"] filter_cong)
qed

lemma unseenRows_first: "unseenRows [] rs = firstRows rs"
  by (simp add: unseenRows_index firstRows_def firstOfPair_def [abs_def])

lemma map_of_objectSet:
  "map_of (objectSet k v d) k' = (if k' = k then Some v else map_of d k')"
  by (induction d) auto

lemma join_merge: "join [c] ((a @ c # b) # xs) = a @ c # join [c] (b # xs)"
  by (cases xs) simp_all

lemma idsOfPair_Cons:
  "idsOfPair k (r # rs) =
   (if pairIndex r = k then cleanSampleId r # idsOfPair k rs else idsOfPair k rs)"
  by (simp add: idsOfPair_def)

lemma recordRows_lookup:
  "map_of (recordRows d rs) k =
   (case map_of d k of
      None \<Rightarrow> (if idsOfPair k rs = [] then None else Some (join '','' (idsOfPair k rs)))
    | Some v \<Rightarrow> Some (join '','' (v # idsOfPair k rs)))"
proof (induction rs arbitrary: d)
  case Nil
  show ?case by (simp add: idsOfPair_def split: option.splits)
next
  case (Cons r rs)
  show ?case
    by (simp add: Cons.IH map_of_objectSet idsOfPair_Cons join_merge split: option.splits)
qed

lemma objectSet_key_set: "fst ` set (objectSet k v d) = insert k (fst ` set d)"
  by (induction d) auto

lemma objectSet_distinct:
  "distinct (map fst d) \<Longrightarrow> distinct (map fst (objectSet k v d))"
  by (induction d) (auto simp: objectSet_key_set)

lemma recordRows_distinct:
  "distinct (map fst d) \<Longrightarrow> distinct (map fst (recordRows d rs))"
  by (induction rs arbitrary: d) (simp_all add: objectSet_distinct split: option.splits)

lemma map_of_filter_value:
  "distinct (map fst xs) \<Longrightarrow>
   map_of (filter (\<lambda>(k, v). Q v) xs) k =
   (case map_of xs k of None \<Rightarrow> None | Some v \<Rightarrow> if Q v then Some v else None)"
proof (induction xs)
  case Nil
  show ?case by simp
next
  case (Cons x xs)
  obtain a b where x: "x = (a, b)" by (cases x)
  from Cons.prems x have "a \<notin> fst ` set xs" by simp
  then have "a \<notin> fst ` set (filter (\<lambda>(k, v). Q v) xs)" by auto
  then have "map_of (filter (\<lambda>(k, v). Q v) xs) a = None"
    by (simp add: map_of_eq_None_iff)
  with Cons x show ?case by auto
qed

lemma includes_comma: "includes_str v '','' \<longleftrightarrow> CHR '','' \<in> set v"
  by (induction v) auto

lemma cleanSampleId_no_comma: "CHR '','' \<notin> set (cleanSampleId r)"
proof -
  have "CHR '','' \<notin> set identifierChars" by (simp add: identifierChars_def)
  with removeSpecialChars_chars [of "r ! 0"] show ?thesis
    by (auto simp: cleanSampleId_def)
qed

lemma join_comma:
  "\<forall>x \<in> set xs. CHR '','' \<notin> set x \<Longrightarrow>
   CHR '','' \<in> set (join '','' xs) \<longleftrightarrow> 2 \<le> length xs"
proof (cases xs)
  case Nil
  then show ?thesis by simp
next
  case (Cons a ys)
  assume "\<forall>x \<in> set xs. CHR '','' \<notin> set x"
  with Cons show ?thesis by (cases ys) auto
qed

lemma idsOfPair_no_comma: "\<forall>x \<in> set (idsOfPair k rs). CHR '','' \<notin> set x"
  by (auto simp: idsOfPair_def cleanSampleId_no_comma)

lemma nonblank_rest:
  "filter (\<lambda>l. trim l \<noteq> []) (drop n (dropWhile Q (filter (\<lambda>l. trim l \<noteq> []) ls)))
   = drop n (dropWhile Q (filter (\<lambda>l. trim l \<noteq> []) ls))"
proof (rule filter_True, rule ballI)
  fix x assume "x \<in> set (drop n (dropWhile Q (filter (\<lambda>l. trim l \<noteq> []) ls)))"
  then have "x \<in> set (filter (\<lambda>l. trim l \<noteq> []) ls)"
    by (meson in_set_dropD set_dropWhileD)
  then show "trim x \<noteq> []" by simp
qed

text \<open>
  C10. Whenever \<open>validateSampleSheet\<close> returns, every data row has its seven
  cells, and the lines returned are the lines up to the column header followed
  by one line for each data row that is the first with its index pair, in the
  order of the rows: a later row with a pair already seen adds no line. The map
  of duplicates holds, for every pair that two or more rows share, the cleaned
  sample ids of all these rows in order, joined by commas, so each later row is
  appended to the entry of its pair; a pair of one row only has no entry.
\<close>

theorem validateSampleSheet_first_of_pair:
  assumes "validateSampleSheet content adapterKit = Inr res"
  shows "(\<forall>row \<in> set (dataRowsOf content). 7 \<le> length row)
       \<and> samples res
         = linesToHeader content
           @ map (sampleLine nextera_xt_v2) (firstRows (dataRowsOf content))
       \<and> map_of (duplicatedIndexes res) k
         = (if 2 \<le> length (idsOfPair k (dataRowsOf content))
            then Some (join '','' (idsOfPair k (dataRowsOf content))) else None)"
proof -
  let ?nb = "filter (\<lambda>l. trim l \<noteq> []) (splitOn LF content)"
  let ?rest = "drop 1 (dropWhile (\<lambda>l. \<not> isHeaderLine l) ?nb)"
  from assms obtain S D
    where loop: "validateLoop adapterKit False [] [] (splitOn LF content) = Inr (S, D)"
    and res: "res = \<lparr>samples = S,
                     duplicatedIndexes = filter (\<lambda>(k, v). includes_str v '','') D\<rparr>"
    by (auto simp: validateSampleSheet_def split: sum.splits)
  from header_phase [OF loop] obtain S' where
    S: "S = takeWhile (\<lambda>l. \<not> isHeaderLine l) ?nb
            @ take 1 (dropWhile (\<lambda>l. \<not> isHeaderLine l) ?nb) @ S'"
    and data: "validateLoop adapterKit True [] [] ?rest = Inr (S', D)"
    by auto
  from data_phase [OF data]
  have S': "S' = map (sampleLine nextera_xt_v2) (unseenRows [] (map parseRow ?rest))"
    and D: "D = recordRows [] (map parseRow ?rest)"
    and seven: "\<forall>row \<in> set (map parseRow ?rest). 7 \<le> length row"
    by (simp_all add: nonblank_rest)
  have rest: "map parseRow ?rest = dataRowsOf content"
    by (simp add: dataRowsOf_def nonBlankLines_def)
  have lines: "samples res
         = linesToHeader content
           @ map (sampleLine nextera_xt_v2) (firstRows (dataRowsOf content))"
    using res S S' rest
    by (simp add: linesToHeader_def nonBlankLines_def unseenRows_first)
  have dist: "distinct (map fst D)"
    unfolding D by (rule recordRows_distinct) simp
  have lookup: "map_of D k = (if idsOfPair k (dataRowsOf content) = [] then None
                              else Some (join '','' (idsOfPair k (dataRowsOf content))))"
    unfolding D rest by (simp add: recordRows_lookup)
  have "map_of (duplicatedIndexes res) k
         = (if 2 \<le> length (idsOfPair k (dataRowsOf content))
            then Some (join '','' (idsOfPair k (dataRowsOf content))) else None)"
    unfolding res
    using lookup join_comma [OF idsOfPair_no_comma, of k "dataRowsOf content"]
    by (auto simp: map_of_filter_value [OF dist] includes_comma)
  with lines seven show ?thesis unfolding rest by blast
qed

theorem validateSampleSheet_first_of_pair_witness:
  "samples (projr (validateSampleSheet
      (join [LF] [''Sample_ID,Description,I7_Index_ID,index,I5_Index_ID,index2,Sample_Project'',
                  ''s 1,,N701,AAAA,S522,TTTT,P'', ''s2,,N701,AAAA,S522,TTTT,P'',
                  ''s3,d,A-N702,GGGG,X,ACCT,P''])
      ''nextera_xt_v2''))
   = [''Sample_ID,Description,I7_Index_ID,index,I5_Index_ID,index2,Sample_Project'',
      ''s-1,s-1,N701,TAAGGCGA,S522,TCGCATAA,P'', ''s3,d,N702,GGGG,X,AGGT,P'']
   \<and> map_of (duplicatedIndexes (projr (validateSampleSheet
      (join [LF] [''Sample_ID,Description,I7_Index_ID,index,I5_Index_ID,index2,Sample_Project'',
                  ''s 1,,N701,AAAA,S522,TTTT,P'', ''s2,,N701,AAAA,S522,TTTT,P'',
                  ''s3,d,A-N702,GGGG,X,ACCT,P''])
      ''nextera_xt_v2''))) ''AAAA+TTTT''
   = Some ''s-1,s2''"
proof -
  let ?c = "join [LF]
    [''Sample_ID,Description,I7_Index_ID,index,I5_Index_ID,index2,Sample_Project'',
     ''s 1,,N701,AAAA,S522,TTTT,P'', ''s2,,N701,AAAA,S522,TTTT,P'',
     ''s3,d,A-N702,GGGG,X,ACCT,P'']"
  let ?r = "\<lparr>samples =
      [''Sample_ID,Description,I7_Index_ID,index,I5_Index_ID,index2,Sample_Project'',
       ''s-1,s-1,N701,TAAGGCGA,S522,TCGCATAA,P'', ''s3,d,N702,GGGG,X,AGGT,P''],
     duplicatedIndexes = [(''AAAA+TTTT'', ''s-1,s2'')]\<rparr>"
  have returned: "validateSampleSheet ?c ''nextera_xt_v2'' = Inr ?r"
    by code_simp
  have lines: "linesToHeader ?c @ map (sampleLine nextera_xt_v2) (firstRows (dataRowsOf ?c))
     = [''Sample_ID,Description,I7_Index_ID,index,I5_Index_ID,index2,Sample_Project'',
        ''s-1,s-1,N701,TAAGGCGA,S522,TCGCATAA,P'', ''s3,d,N702,GGGG,X,AGGT,P'']"
    by code_simp
  have ids: "idsOfPair ''AAAA+TTTT'' (dataRowsOf ?c) = [''s-1'', ''s2'']"
    by code_simp
  note fact = validateSampleSheet_first_of_pair [OF returned, of "''AAAA+TTTT''", THEN conjunct2]
  have "samples ?r
     = [''Sample_ID,Description,I7_Index_ID,index,I5_Index_ID,index2,Sample_Project'',
        ''s-1,s-1,N701,TAAGGCGA,S522,TCGCATAA,P'', ''s3,d,N702,GGGG,X,AGGT,P'']"
    using fact [THEN conjunct1] unfolding lines .
  moreover have "map_of (duplicatedIndexes ?r) ''AAAA+TTTT'' = Some ''s-1,s2''"
    using fact [THEN conjunct2] unfolding ids by simp
  ultimately show ?thesis
    unfolding returned sum.sel by (rule conjI)
qed

end
